theory Spec2Isabelle
  imports Complex_Main "HOL-Library.AList"
begin

section \<open>Conventions of the embedding\<close>

text \<open>
  The engine is the class \<open>EnhancedORBStockTradingBot\<close> of
  \<open>enhanced_orb_stock_bot.py\<close>; the class \<open>ORBStockTradingBot\<close> of
  \<open>orb_stock_bot.py\<close> is an earlier copy of the same engine and is embedded further
  down with the prefix \<open>orb_\<close>.

  \<^item> Python floats (prices, volumes, money) are real numbers: rounding of IEEE doubles is
    not part of the engine model. Where a statement is about decimal values that the
    code computes, the section on the entry levels in double arithmetic repeats the
    computation with every operation rounded to the nearest double. Python ints are
    \<open>int\<close>.
  \<^item> A Python dict is an association list in insertion order: \<open>map_of\<close> reads a key,
    \<open>AList.update\<close> is \<open>d[k] = v\<close> (replace in place, or append a new key) and
    \<open>AList.delete\<close> is \<open>del d[k]\<close>.
  \<^item> The instance \<open>self\<close> is a record that every method takes and returns.
  \<^item> What the market-data provider returns is an argument of the method that asks for it;
    \<open>None\<close> is a failed or empty fetch.
  \<^item> Telegram messages and the JSON files are effects outside the engine state; both
    helpers catch their own exceptions, so they never change the control flow.
  \<^item> Wall-clock readings (\<open>datetime.now\<close>, \<open>time.time\<close>) are arguments.
\<close>

definition py_int :: "real \<Rightarrow> int" where
  \<comment> \<open>\<open>int(x)\<close> on a float: truncation toward zero.\<close>
  "py_int x = (if 0 \<le> x then \<lfloor>x\<rfloor> else \<lceil>x\<rceil>)"

definition digit_char :: "nat \<Rightarrow> char" where
  "digit_char n = ''0123456789'' ! (n mod 10)"

fun str_nat :: "nat \<Rightarrow> string" where
  "str_nat n = (if n < 10 then [digit_char n] else str_nat (n div 10) @ [digit_char n])"

declare str_nat.simps [simp del]

definition str_int :: "int \<Rightarrow> string" where
  \<comment> \<open>\<open>str(i)\<close>, also what an f-string writes for an int.\<close>
  "str_int i = (if i < 0 then CHR ''-'' # str_nat (nat (- i)) else str_nat (nat i))"

definition pad2 :: "nat \<Rightarrow> string" where
  \<comment> \<open>The two-digit fields of \<open>strftime('%H:%M:%S')\<close>.\<close>
  "pad2 n = [digit_char (n div 10), digit_char n]"

section \<open>Session resolver\<close>

text \<open>
  \<open>datetime.now(self.dubai_tz)\<close> restricted to what the resolver reads: the time of
  day. \<open>replace(hour=.., minute=.., second=0, microsecond=0)\<close> keeps the date, so the
  comparisons of the source compare times of day, field by field.
\<close>

record clock =
  hour :: nat
  minute :: nat
  second :: nat
  microsecond :: nat

definition clock_le :: "clock \<Rightarrow> clock \<Rightarrow> bool" where
  "clock_le a b \<longleftrightarrow>
     hour a < hour b \<or>
     (hour a = hour b \<and>
       (minute a < minute b \<or>
        (minute a = minute b \<and>
          (second a < second b \<or>
           (second a = second b \<and> microsecond a \<le> microsecond b)))))"

definition at_time :: "nat \<Rightarrow> nat \<Rightarrow> clock" where
  "at_time h m = \<lparr>hour = h, minute = m, second = 0, microsecond = 0\<rparr>"

record sessions =
  uk_session :: bool
  us_session :: bool
  dubai_time :: string

definition get_optimal_trading_sessions :: "clock \<Rightarrow> sessions" where
  "get_optimal_trading_sessions now =
     (let uk_open = at_time 12 0;
          uk_close = at_time 20 30;
          us_open = at_time 18 30;
          us_close = at_time 1 0;
          us_session_active = (if hour now \<ge> 18 \<or> hour now \<le> 1 then True else False)
      in \<lparr>uk_session = clock_le uk_open now \<and> clock_le now uk_close,
          us_session = us_session_active,
          dubai_time = pad2 (hour now) @ '':'' @ pad2 (minute now) @ '':'' @ pad2 (second now)\<rparr>)"

section \<open>Data model of the enhanced engine\<close>

datatype direction = LONG | SHORT

datatype market_condition = WEAK | NORMAL | TRENDING | HIGH_VOLATILITY

datatype status = ACTIVE | CLOSED

datatype bias = NEUTRAL | BULLISH | BEARISH

datatype py_error = IndexError | KeyError | ZeroDivisionError | UnboundLocalError

text \<open>One row of the data frame that \<open>get_stock_data\<close> returns.\<close>

record bar =
  bar_open :: real
  high :: real
  low :: real
  close :: real
  volume :: real

text \<open>The dict that \<open>enhanced_volume_analysis\<close> returns.\<close>

record vol_analysis =
  volume_surge :: real
  volume_trend :: real
  is_strong_volume :: bool
  avg_volume_20 :: real
  current_volume :: real

text \<open>The dict that \<open>get_higher_timeframe_bias\<close> returns.\<close>

record bias_result =
  bias_15m :: bias
  bias_1h :: bias
  aligned :: bool

text \<open>
  The dict \<open>confirmations\<close> of \<open>enhanced_entry_conditions\<close>; its key
  \<open>'volume_surge'\<close> is the field \<open>volume_surge_ok\<close>.
\<close>

record confirmation_set =
  volume_strong :: bool
  bias_aligned :: bool
  market_suitable :: bool
  volume_surge_ok :: bool

text \<open>An entry of \<open>self.opening_ranges\<close> (the \<open>timestamp\<close> string is left out).\<close>

record opening_range =
  or_symbol :: string
  orh :: real
  orl :: real
  range_size :: real
  volume_avg :: real

text \<open>The entry proposal: the dict that \<open>enhanced_entry_conditions\<close> returns.\<close>

record entry_proposal =
  direction :: direction
  entry_price :: real
  stop_loss :: real
  target1 :: real
  target2 :: real
  target3 :: real
  target_rr :: real
  market_condition :: market_condition
  confirmations :: confirmation_set
  volume_analysis :: vol_analysis
  bias_analysis :: bias_result

text \<open>
  A trade: the keys \<open>execute_trade\<close> copies from the proposal, the keys it adds, and
  the keys \<open>close_trade\<close> adds, which are absent (\<open>None\<close>) until then. The
  \<open>timestamp\<close> and \<open>exit_time\<close> strings are left out.
\<close>

record trade = entry_proposal +
  trade_id :: string
  symbol :: string
  position_size :: int
  risk_amount :: real
  status :: status
  tp1_hit :: bool
  tp2_hit :: bool
  current_stop :: real
  exit_price :: "real option"
  exit_reason :: "string option"
  pnl :: "real option"
  actual_rr :: "real option"

record stats =
  trades_today :: int
  daily_pnl :: real
  consecutive_losses :: int
  win_rate :: real
  avg_rr_achieved :: real

text \<open>The instance: its configuration and its data storage.\<close>

record bot =
  account_size :: real
  risk_per_trade :: real
  max_trades_per_day :: int
  max_daily_loss :: real
  active_trades :: "(string \<times> trade) list"
  trades_history :: "trade list"
  daily_stats :: stats
  opening_ranges :: "(string \<times> opening_range) list"

definition init_bot :: "real \<Rightarrow> real \<Rightarrow> bot" where
  \<comment> \<open>\<open>__init__\<close> with no saved files; the two arguments come from the environment.\<close>
  "init_bot acct risk =
     \<lparr>account_size = acct, risk_per_trade = risk, max_trades_per_day = 5,
      max_daily_loss = 0.03, active_trades = [], trades_history = [],
      daily_stats = \<lparr>trades_today = 0, daily_pnl = 0, consecutive_losses = 0,
                      win_rate = 0, avg_rr_achieved = 0\<rparr>,
      opening_ranges = []\<rparr>"

section \<open>Series helpers\<close>

definition tail :: "nat \<Rightarrow> 'a list \<Rightarrow> 'a list" where
  \<comment> \<open>\<open>Series.tail(n)\<close>: the last \<open>n\<close> rows, all of them when there are fewer.\<close>
  "tail n xs = drop (length xs - n) xs"

definition mean :: "real list \<Rightarrow> real" where
  \<comment> \<open>\<open>Series.mean()\<close>; only used on a series with a row.\<close>
  "mean xs = sum_list xs / real (length xs)"

definition series_max :: "real list \<Rightarrow> real" where
  \<comment> \<open>\<open>Series.max()\<close>; only used on a series with a row.\<close>
  "series_max xs = fold max (tl xs) (hd xs)"

definition series_min :: "real list \<Rightarrow> real" where
  "series_min xs = fold min (tl xs) (hd xs)"

section \<open>Volume analysis and opening range\<close>

definition fallback_volume_analysis :: vol_analysis where
  \<comment> \<open>The dict of the \<open>except\<close> branch.\<close>
  "fallback_volume_analysis =
     \<lparr>volume_surge = 1, volume_trend = 1, is_strong_volume = False,
      avg_volume_20 = 0, current_volume = 0\<rparr>"

definition volume_analysis_body :: "bar list \<Rightarrow> py_error + vol_analysis" where
  \<comment> \<open>The \<open>try\<close> block: \<open>iloc[-1]\<close> raises on a frame without rows.\<close>
  "volume_analysis_body data =
     (if data = [] then Inl IndexError
      else
        let vols = map volume data;
            current_volume = last vols;
            avg_volume_20 = mean (tail 20 vols);
            avg_volume_50 = mean (tail 50 vols);
            volume_surge = (if avg_volume_20 > 0 then current_volume / avg_volume_20 else 1);
            volume_trend = (if mean (tail 20 vols) > 0
                            then mean (tail 5 vols) / mean (tail 20 vols) else 1)
        in Inr \<lparr>volume_surge = volume_surge,
                volume_trend = volume_trend,
                is_strong_volume = (volume_surge \<ge> 2.0 \<and> volume_trend \<ge> 1.2),
                avg_volume_20 = avg_volume_20,
                current_volume = current_volume\<rparr>)"

definition enhanced_volume_analysis :: "bar list \<Rightarrow> vol_analysis" where
  "enhanced_volume_analysis data =
     (case volume_analysis_body data of
        Inr r \<Rightarrow> r
      | Inl e \<Rightarrow> fallback_volume_analysis)"

definition calculate_opening_range ::
  "bot \<Rightarrow> string \<Rightarrow> bar list option \<Rightarrow> bot \<times> opening_range option" where
  "calculate_opening_range self symb fetched =
     (case fetched of
        None \<Rightarrow> (self, None)
      | Some data \<Rightarrow>
          if data = [] then (self, None)
          else
            let opening_data = take 6 data in
            if opening_data = [] then (self, None)
            else
              let orh = series_max (map high opening_data);
                  orl = series_min (map low opening_data);
                  range_size = orh - orl;
                  volume_avg = (if length data \<ge> 20 then mean (tail 20 (map volume data))
                                else mean (map volume data));
                  opening_range = \<lparr>or_symbol = symb, orh = orh, orl = orl,
                                   range_size = range_size, volume_avg = volume_avg\<rparr>
              in (self\<lparr>opening_ranges := AList.update symb opening_range (opening_ranges self)\<rparr>,
                  Some opening_range))"

section \<open>Entry confirmation\<close>

text \<open>
  \<open>get_market_condition\<close> and \<open>get_higher_timeframe_bias\<close> are pandas computations
  over fetched bars (rolling and exponentially weighted means). Their results, a pair of
  label and target risk:reward and a bias dict, are arguments here, so everything proved
  below holds whatever they return. The result is the proposal, or the reason of the
  rejection; the text that accompanies a proposal formats a float and is left out.
\<close>

datatype entry_result = Proposal entry_proposal | Rejected string

definition entry_confirmations ::
  "vol_analysis \<Rightarrow> bias_result \<Rightarrow> market_condition \<Rightarrow> confirmation_set" where
  "entry_confirmations va ba mc =
     \<lparr>volume_strong = is_strong_volume va,
      bias_aligned = aligned ba,
      market_suitable = (mc \<in> set [NORMAL, TRENDING, HIGH_VOLATILITY]),
      volume_surge_ok = (volume_surge va \<ge> 1.5)\<rparr>"

definition confirmation_count :: "confirmation_set \<Rightarrow> nat" where
  \<comment> \<open>\<open>sum(confirmations.values())\<close>\<close>
  "confirmation_count c =
     length (filter (\<lambda>b. b) [volume_strong c, bias_aligned c, market_suitable c, volume_surge_ok c])"

definition enhanced_entry_conditions ::
  "bot \<Rightarrow> string \<Rightarrow> real \<Rightarrow> real \<Rightarrow> bar list option \<Rightarrow>
   market_condition \<times> real \<Rightarrow> bias_result \<Rightarrow> entry_result" where
  "enhanced_entry_conditions self symb current_price current_vol fetched mc_rr bias =
     (case fetched of
        None \<Rightarrow> Rejected ''No data available''
      | Some data \<Rightarrow>
          if data = [] then Rejected ''No data available''
          else
            let market_condition = fst mc_rr;
                target_rr = snd mc_rr;
                volume_analysis = enhanced_volume_analysis data
            in
            (case map_of (opening_ranges self) symb of
               None \<Rightarrow> Rejected ''No opening range data''
             | Some orb \<Rightarrow>
                 if \<not> (current_price > orh orb) \<and> \<not> (current_price < orl orb)
                 then Rejected ''No breakout detected''
                 else
                   let breakout_direction = (if current_price > orh orb then LONG else SHORT);
                       confirmations = entry_confirmations volume_analysis bias market_condition;
                       confirmation_count = confirmation_count confirmations
                   in
                   if confirmation_count \<ge> 3 then
                     (if breakout_direction = LONG then
                        (let entry_price = orh orb + 0.05;
                             stop_loss = orl orb - 0.10;
                             risk_distance = entry_price - stop_loss
                         in Proposal
                              \<lparr>direction = breakout_direction,
                               entry_price = entry_price,
                               stop_loss = stop_loss,
                               target1 = entry_price + (target_rr * risk_distance),
                               target2 = entry_price + ((target_rr + 1) * risk_distance),
                               target3 = entry_price + (2 * range_size orb),
                               target_rr = target_rr,
                               market_condition = market_condition,
                               confirmations = confirmations,
                               volume_analysis = volume_analysis,
                               bias_analysis = bias\<rparr>)
                      else
                        (let entry_price = orl orb - 0.05;
                             stop_loss = orh orb + 0.10;
                             risk_distance = stop_loss - entry_price
                         in Proposal
                              \<lparr>direction = breakout_direction,
                               entry_price = entry_price,
                               stop_loss = stop_loss,
                               target1 = entry_price - (target_rr * risk_distance),
                               target2 = entry_price - ((target_rr + 1) * risk_distance),
                               target3 = entry_price - (2 * range_size orb),
                               target_rr = target_rr,
                               market_condition = market_condition,
                               confirmations = confirmations,
                               volume_analysis = volume_analysis,
                               bias_analysis = bias\<rparr>))
                   else Rejected (''Entry conditions not met ('' @ str_nat confirmation_count
                                   @ ''/4 confirmations)'')))"

section \<open>Entry levels in double arithmetic\<close>

text \<open>
  A Python float is an IEEE binary64 number: 53 significant bits, and every literal and
  every \<open>+\<close>, \<open>-\<close>, \<open>*\<close> rounded to the nearest such number, ties to the even
  significand. \<open>fl\<close> is that rounding on the reals, for magnitudes in the normal range
  (neither overflow nor subnormal numbers, which prices do not reach). For \<open>x \<noteq> 0\<close>,
  \<open>binade x\<close> is the exponent \<open>e\<close> with \<open>2^e \<le> |x| < 2^(e+1)\<close> and the spacing of the
  doubles around \<open>x\<close> is \<open>2^(e-52)\<close>.
\<close>

fun bit_length :: "nat \<Rightarrow> nat" where
  "bit_length n = (if n = 0 then 0 else Suc (bit_length (n div 2)))"

declare bit_length.simps [simp del]

definition pow2 :: "int \<Rightarrow> real" where
  "pow2 k = (if 0 \<le> k then 2 ^ nat k else 1 / 2 ^ nat (- k))"

definition binade :: "real \<Rightarrow> int" where
  "binade x =
     (if 1 \<le> \<bar>x\<bar> then int (bit_length (nat \<lfloor>\<bar>x\<bar>\<rfloor>)) - 1
      else - int (bit_length (nat (\<lceil>1 / \<bar>x\<bar>\<rceil> - 1))))"

definition round_half_even :: "real \<Rightarrow> int" where
  "round_half_even y =
     (let f = \<lfloor>y\<rfloor>; d = y - of_int f
      in if d < 1 / 2 then f else if d > 1 / 2 then f + 1 else if even f then f else f + 1)"

definition fl :: "real \<Rightarrow> real" where
  "fl x = (if x = 0 then 0
           else let u = pow2 (binade x - 52) in of_int (round_half_even (x / u)) * u)"

record entry_levels =
  lv_entry :: real
  lv_stop :: real
  lv_risk :: real
  lv_target1 :: real

definition long_levels :: "(real \<Rightarrow> real) \<Rightarrow> real \<Rightarrow> real \<Rightarrow> real \<Rightarrow> entry_levels" where
  \<comment> \<open>The LONG branch of \<open>enhanced_entry_conditions\<close> up to \<open>target1\<close>, with the
      rounding \<open>rnd\<close> applied to every literal and every operation; the other arguments
      are \<open>orh\<close>, \<open>orl\<close> and \<open>target_rr\<close>.\<close>
  "long_levels rnd range_high range_low rr =
     (let entry_price = rnd (range_high + rnd 0.05);
          stop_loss = rnd (range_low - rnd 0.10);
          risk_distance = rnd (entry_price - stop_loss);
          target1 = rnd (entry_price + rnd (rr * risk_distance))
      in \<lparr>lv_entry = entry_price, lv_stop = stop_loss, lv_risk = risk_distance,
          lv_target1 = target1\<rparr>)"

definition long_levels_double :: "real \<Rightarrow> real \<Rightarrow> real \<Rightarrow> entry_levels" where
  \<comment> \<open>What the code computes on doubles \<open>orh\<close>, \<open>orl\<close> and \<open>target_rr\<close>.\<close>
  "long_levels_double range_high range_low rr = long_levels fl range_high range_low rr"

section \<open>Position sizing and the daily risk governor\<close>

definition risk_multiplier :: "market_condition \<Rightarrow> real" where
  "risk_multiplier mc =
     (case mc of WEAK \<Rightarrow> 0.5 | NORMAL \<Rightarrow> 1.0 | TRENDING \<Rightarrow> 1.2 | HIGH_VOLATILITY \<Rightarrow> 0.8)"

definition calculate_position_size :: "bot \<Rightarrow> real \<Rightarrow> real \<Rightarrow> market_condition \<Rightarrow> int" where
  "calculate_position_size self entry stop mc =
     (let risk_per_share = \<bar>entry - stop\<bar> in
      if risk_per_share \<le> 0 then 0
      else
        let risk_amount = account_size self * risk_per_trade self * risk_multiplier mc;
            position_size = py_int (risk_amount / risk_per_share);
            max_position_value = account_size self * 0.02
        in if entry = 0 then 0 \<comment> \<open>ZeroDivisionError, caught: \<open>return 0\<close>\<close>
           else min position_size (py_int (max_position_value / entry)))"

definition execute_trade ::
  "bot \<Rightarrow> string \<Rightarrow> entry_proposal \<Rightarrow> int \<Rightarrow> bot \<times> bool \<times> string" where
  \<comment> \<open>The last argument is \<open>int(time.time())\<close>.\<close>
  "execute_trade self symb trade_data now =
     (if trades_today (daily_stats self) \<ge> max_trades_per_day self
      then (self, False, ''Daily trade limit reached'')
      else if \<bar>daily_pnl (daily_stats self)\<bar> \<ge> account_size self * max_daily_loss self
      then (self, False, ''Daily loss limit reached'')
      else
        let position_size = calculate_position_size self (entry_price trade_data)
                              (stop_loss trade_data) (market_condition trade_data)
        in
        if position_size \<le> 0 then (self, False, ''Position size too small'')
        else
          let trade =
                \<lparr>direction = direction trade_data,
                 entry_price = entry_price trade_data,
                 stop_loss = stop_loss trade_data,
                 target1 = target1 trade_data,
                 target2 = target2 trade_data,
                 target3 = target3 trade_data,
                 target_rr = target_rr trade_data,
                 market_condition = market_condition trade_data,
                 confirmations = confirmations trade_data,
                 volume_analysis = volume_analysis trade_data,
                 bias_analysis = bias_analysis trade_data,
                 trade_id = symb @ ''_'' @ str_int now,
                 symbol = symb,
                 position_size = position_size,
                 risk_amount = real_of_int position_size
                                 * \<bar>entry_price trade_data - stop_loss trade_data\<bar>,
                 status = ACTIVE,
                 tp1_hit = False,
                 tp2_hit = False,
                 current_stop = stop_loss trade_data,
                 exit_price = None,
                 exit_reason = None,
                 pnl = None,
                 actual_rr = None\<rparr>
          in (self\<lparr>active_trades := AList.update (trade_id trade) trade (active_trades self),
                    daily_stats := (daily_stats self)
                                     \<lparr>trades_today := trades_today (daily_stats self) + 1\<rparr>\<rparr>,
              True, ''Enhanced trade executed: '' @ trade_id trade))"

section \<open>Trade lifecycle\<close>

definition hit_take_profit :: "bot \<Rightarrow> string \<Rightarrow> int \<Rightarrow> real \<Rightarrow> bot" where
  \<comment> \<open>A missing id, or a level other than 1 and 2 (no \<open>message\<close> is bound then), raises
      inside the \<open>try\<close>; the \<open>except\<close> prints and the state stays.\<close>
  "hit_take_profit self tid tp_level price =
     (case map_of (active_trades self) tid of
        None \<Rightarrow> self
      | Some trade \<Rightarrow>
          if tp_level = 1 then
            self\<lparr>active_trades := AList.update tid
                    (trade\<lparr>tp1_hit := True,
                           position_size := py_int (real_of_int (position_size trade) * 0.5)\<rparr>)
                    (active_trades self)\<rparr>
          else if tp_level = 2 then
            self\<lparr>active_trades := AList.update tid
                    (trade\<lparr>tp2_hit := True,
                           position_size := py_int (real_of_int (position_size trade) * 0.25)\<rparr>)
                    (active_trades self)\<rparr>
          else self)"

definition winning_trades :: "trade list \<Rightarrow> trade list" where
  \<comment> \<open>\<open>[t for t in self.trades_history if t['pnl'] > 0]\<close>, on a history whose entries
      all have the key.\<close>
  "winning_trades h = filter (\<lambda>t. case pnl t of Some x \<Rightarrow> x > 0 | None \<Rightarrow> False) h"

definition total_rr :: "trade list \<Rightarrow> real" where
  \<comment> \<open>\<open>sum([t.get('actual_rr', 0) for t in self.trades_history])\<close>\<close>
  "total_rr h = sum_list (map (\<lambda>t. case actual_rr t of Some r \<Rightarrow> r | None \<Rightarrow> 0) h)"

definition close_trade :: "bot \<Rightarrow> string \<Rightarrow> real \<Rightarrow> string \<Rightarrow> bot" where
  \<comment> \<open>A missing id raises before anything is written. A history entry without the key
      \<open>'pnl'\<close> raises in the win-rate line, after the trade has moved and the first
      three statistics are written.\<close>
  "close_trade self tid exit_p reason =
     (case map_of (active_trades self) tid of
        None \<Rightarrow> self
      | Some trade \<Rightarrow>
          let pnl_v = (if direction trade = LONG
                       then (exit_p - entry_price trade) * real_of_int (position_size trade)
                       else (entry_price trade - exit_p) * real_of_int (position_size trade));
              risk_amount_v = \<bar>entry_price trade - stop_loss trade\<bar> * real_of_int (position_size trade);
              actual_rr_v = (if risk_amount_v > 0 then pnl_v / risk_amount_v else 0);
              trade' = trade\<lparr>exit_price := Some exit_p, exit_reason := Some reason,
                             pnl := Some pnl_v, actual_rr := Some actual_rr_v, status := CLOSED\<rparr>;
              history = trades_history self @ [trade'];
              ds = daily_stats self;
              ds1 = ds\<lparr>daily_pnl := daily_pnl ds + pnl_v,
                       consecutive_losses := (if pnl_v < 0 then consecutive_losses ds + 1 else 0)\<rparr>;
              self1 = self\<lparr>trades_history := history,
                           active_trades := AList.delete tid (active_trades self),
                           daily_stats := ds1\<rparr>
          in
          if \<not> list_all (\<lambda>t. pnl t \<noteq> None) history then self1
          else
            let total_trades = length history;
                winning = length (winning_trades history)
            in self1\<lparr>daily_stats := ds1
                  \<lparr>win_rate := (if total_trades > 0
                                 then real winning / real total_trades * 100 else 0),
                   avg_rr_achieved := (if total_trades > 0
                                       then total_rr history / real total_trades else 0)\<rparr>\<rparr>)"

definition trailing_stop :: "trade \<Rightarrow> trade" where
  \<comment> \<open>The block after the target checks; it writes to the dict the loop holds.\<close>
  "trailing_stop trade =
     (if tp1_hit trade \<and> \<not> tp2_hit trade then
        (case direction trade of
           LONG \<Rightarrow>
             (let new_stop = entry_price trade in
              if new_stop > current_stop trade then trade\<lparr>current_stop := new_stop\<rparr> else trade)
         | SHORT \<Rightarrow>
             (let new_stop = entry_price trade in
              if new_stop < current_stop trade then trade\<lparr>current_stop := new_stop\<rparr> else trade))
      else trade)"

definition update_trade_object :: "bot \<Rightarrow> string \<Rightarrow> (trade \<Rightarrow> trade) \<Rightarrow> bot" where
  \<comment> \<open>A write through the loop variable \<open>trade\<close>. The dict it refers to is the value of
      \<open>active_trades[tid]\<close>, or, once \<open>close_trade\<close> has moved it in this iteration,
      the last entry of the history.\<close>
  "update_trade_object self tid f =
     (case map_of (active_trades self) tid of
        Some trade \<Rightarrow> self\<lparr>active_trades := AList.update tid (f trade) (active_trades self)\<rparr>
      | None \<Rightarrow>
          (case rev (trades_history self) of
             [] \<Rightarrow> self
           | t # older \<Rightarrow> self\<lparr>trades_history := rev older @ [f t]\<rparr>))"

definition check_targets :: "bot \<Rightarrow> string \<Rightarrow> trade \<Rightarrow> real \<Rightarrow> bot" where
  "check_targets self tid trade current_price =
     (case direction trade of
        LONG \<Rightarrow>
          if \<not> tp1_hit trade \<and> current_price \<ge> target1 trade
          then hit_take_profit self tid 1 current_price
          else if \<not> tp2_hit trade \<and> current_price \<ge> target2 trade
          then hit_take_profit self tid 2 current_price
          else if current_price \<ge> target3 trade
          then close_trade self tid current_price ''Target 3 Hit''
          else self
      | SHORT \<Rightarrow>
          if \<not> tp1_hit trade \<and> current_price \<le> target1 trade
          then hit_take_profit self tid 1 current_price
          else if \<not> tp2_hit trade \<and> current_price \<le> target2 trade
          then hit_take_profit self tid 2 current_price
          else if current_price \<le> target3 trade
          then close_trade self tid current_price ''Target 3 Hit''
          else self)"

definition monitor_trade :: "bot \<Rightarrow> string \<Rightarrow> real option \<Rightarrow> bot" where
  \<comment> \<open>One iteration of the loop of \<open>monitor_active_trades\<close>; the last argument is the
      latest close the provider returns for the trade's symbol, \<open>None\<close> when it
      returns nothing.\<close>
  "monitor_trade self tid fetched =
     (case map_of (active_trades self) tid of
        None \<Rightarrow> self
      | Some trade \<Rightarrow>
          (case fetched of
             None \<Rightarrow> self
           | Some current_price \<Rightarrow>
               if direction trade = LONG \<and> current_price \<le> current_stop trade
               then close_trade self tid current_price ''Stop Loss Hit''
               else if direction trade = SHORT \<and> current_price \<ge> current_stop trade
               then close_trade self tid current_price ''Stop Loss Hit''
               else update_trade_object (check_targets self tid trade current_price)
                      tid trailing_stop))"

definition monitor_active_trades :: "bot \<Rightarrow> (string \<Rightarrow> real option) \<Rightarrow> bot" where
  \<comment> \<open>The loop runs over a snapshot of the ids; the second argument gives, for each id,
      what the provider returns when the loop asks for that trade's price.\<close>
  "monitor_active_trades self prices =
     fold (\<lambda>tid s. monitor_trade s tid (prices tid)) (map fst (active_trades self)) self"

section \<open>The basic engine\<close>

text \<open>
  The class \<open>ORBStockTradingBot\<close> of \<open>orb_stock_bot.py\<close>. Its dicts have fewer
  keys than those of the enhanced engine, so they are records of their own; the bars, the
  opening range, the direction and the status are shared.
\<close>

record orb_levels =
  orb_direction :: direction
  orb_entry_price :: real
  orb_stop_loss :: real
  orb_target1 :: real
  orb_target2 :: real
  orb_target3 :: real

text \<open>The dict that \<open>check_breakout_conditions\<close> returns.\<close>

record orb_proposal = orb_levels +
  volume_ok :: bool

record orb_trade = orb_levels +
  orb_trade_id :: string
  orb_symbol :: string
  orb_position_size :: int
  orb_risk_amount :: real
  orb_status :: status
  orb_tp1_hit :: bool
  orb_tp2_hit :: bool
  orb_current_stop :: real
  orb_exit_price :: "real option"
  orb_exit_reason :: "string option"
  orb_pnl :: "real option"

record orb_stats =
  orb_trades_today :: int
  orb_daily_pnl :: real
  orb_consecutive_losses :: int

record orb_bot =
  orb_account_size :: real
  orb_risk_per_trade :: real
  orb_max_trades_per_day :: int
  orb_max_daily_loss :: real
  orb_active_trades :: "(string \<times> orb_trade) list"
  orb_trades_history :: "orb_trade list"
  orb_daily_stats :: orb_stats
  orb_opening_ranges :: "(string \<times> opening_range) list"

definition orb_init_bot :: "real \<Rightarrow> real \<Rightarrow> orb_bot" where
  "orb_init_bot acct risk =
     \<lparr>orb_account_size = acct, orb_risk_per_trade = risk, orb_max_trades_per_day = 3,
      orb_max_daily_loss = 0.03, orb_active_trades = [], orb_trades_history = [],
      orb_daily_stats = \<lparr>orb_trades_today = 0, orb_daily_pnl = 0, orb_consecutive_losses = 0\<rparr>,
      orb_opening_ranges = []\<rparr>"

definition orb_calculate_volume_average :: "bar list \<Rightarrow> real" where
  "orb_calculate_volume_average data =
     (if length data \<ge> 20 then mean (tail 20 (map volume data))
      else if data \<noteq> [] then mean (map volume data) else 0)"

definition orb_calculate_opening_range ::
  "orb_bot \<Rightarrow> string \<Rightarrow> bar list option \<Rightarrow> orb_bot \<times> opening_range option" where
  "orb_calculate_opening_range self symb fetched =
     (case fetched of
        None \<Rightarrow> (self, None)
      | Some data \<Rightarrow>
          if data = [] then (self, None)
          else
            let opening_data = take 6 data in
            if opening_data = [] then (self, None)
            else
              let orh = series_max (map high opening_data);
                  orl = series_min (map low opening_data);
                  range_size = orh - orl;
                  volume_avg = orb_calculate_volume_average data;
                  opening_range = \<lparr>or_symbol = symb, orh = orh, orl = orl,
                                   range_size = range_size, volume_avg = volume_avg\<rparr>
              in (self\<lparr>orb_opening_ranges :=
                         AList.update symb opening_range (orb_opening_ranges self)\<rparr>,
                  Some opening_range))"

definition orb_check_breakout_conditions ::
  "orb_bot \<Rightarrow> string \<Rightarrow> real \<Rightarrow> real \<Rightarrow> orb_proposal option \<times> string" where
  "orb_check_breakout_conditions self symb current_price current_vol =
     (case map_of (orb_opening_ranges self) symb of
        None \<Rightarrow> (None, ''No opening range data'')
      | Some orb \<Rightarrow>
          let orh = orh orb; orl = orl orb; volume_avg = volume_avg orb;
              volume_condition = (current_vol \<ge> volume_avg * 1.5)
          in
          if current_price > orh then
            (Some \<lparr>orb_direction = LONG,
                   orb_entry_price = orh + 0.05,
                   orb_stop_loss = orl - 0.10,
                   orb_target1 = orh + 0.05 + (2 * (orh + 0.05 - (orl - 0.10))),
                   orb_target2 = orh + 0.05 + (3 * (orh + 0.05 - (orl - 0.10))),
                   orb_target3 = orh + 0.05 + (2 * range_size orb),
                   volume_ok = volume_condition\<rparr>,
             ''Bullish breakout detected'')
          else if current_price < orl then
            (Some \<lparr>orb_direction = SHORT,
                   orb_entry_price = orl - 0.05,
                   orb_stop_loss = orh + 0.10,
                   orb_target1 = orl - 0.05 - (2 * ((orh + 0.10) - (orl - 0.05))),
                   orb_target2 = orl - 0.05 - (3 * ((orh + 0.10) - (orl - 0.05))),
                   orb_target3 = orl - 0.05 - (2 * range_size orb),
                   volume_ok = volume_condition\<rparr>,
             ''Bearish breakdown detected'')
          else (None, ''No breakout detected''))"

definition orb_calculate_position_size :: "orb_bot \<Rightarrow> real \<Rightarrow> real \<Rightarrow> int" where
  "orb_calculate_position_size self entry stop =
     (let risk_per_share = \<bar>entry - stop\<bar> in
      if risk_per_share \<le> 0 then 0
      else
        let risk_amount = orb_account_size self * orb_risk_per_trade self;
            position_size = py_int (risk_amount / risk_per_share);
            max_position_value = orb_account_size self * 0.02
        in if entry = 0 then 0 \<comment> \<open>ZeroDivisionError, caught: \<open>return 0\<close>\<close>
           else min position_size (py_int (max_position_value / entry)))"

definition orb_execute_trade ::
  "orb_bot \<Rightarrow> string \<Rightarrow> orb_proposal \<Rightarrow> int \<Rightarrow> orb_bot \<times> bool \<times> string" where
  "orb_execute_trade self symb trade_data now =
     (if orb_trades_today (orb_daily_stats self) \<ge> orb_max_trades_per_day self
      then (self, False, ''Daily trade limit reached'')
      else if \<bar>orb_daily_pnl (orb_daily_stats self)\<bar>
                \<ge> orb_account_size self * orb_max_daily_loss self
      then (self, False, ''Daily loss limit reached'')
      else
        let position_size = orb_calculate_position_size self (orb_entry_price trade_data)
                              (orb_stop_loss trade_data)
        in
        if position_size \<le> 0 then (self, False, ''Position size too small'')
        else
          let trade =
                \<lparr>orb_direction = orb_direction trade_data,
                 orb_entry_price = orb_entry_price trade_data,
                 orb_stop_loss = orb_stop_loss trade_data,
                 orb_target1 = orb_target1 trade_data,
                 orb_target2 = orb_target2 trade_data,
                 orb_target3 = orb_target3 trade_data,
                 orb_trade_id = symb @ ''_'' @ str_int now,
                 orb_symbol = symb,
                 orb_position_size = position_size,
                 orb_risk_amount = real_of_int position_size
                                     * \<bar>orb_entry_price trade_data - orb_stop_loss trade_data\<bar>,
                 orb_status = ACTIVE,
                 orb_tp1_hit = False,
                 orb_tp2_hit = False,
                 orb_current_stop = orb_stop_loss trade_data,
                 orb_exit_price = None,
                 orb_exit_reason = None,
                 orb_pnl = None\<rparr>
          in (self\<lparr>orb_active_trades :=
                      AList.update (orb_trade_id trade) trade (orb_active_trades self),
                    orb_daily_stats := (orb_daily_stats self)
                      \<lparr>orb_trades_today := orb_trades_today (orb_daily_stats self) + 1\<rparr>\<rparr>,
              True, ''Trade executed: '' @ orb_trade_id trade))"

definition orb_hit_take_profit :: "orb_bot \<Rightarrow> string \<Rightarrow> int \<Rightarrow> real \<Rightarrow> orb_bot" where
  \<comment> \<open>The message line reads a name \<open>symbol\<close> that this method does not bind: for
      levels 1 and 2 it raises after the two writes to the trade, the \<open>except\<close> prints,
      and the writes stay.\<close>
  "orb_hit_take_profit self tid tp_level price =
     (case map_of (orb_active_trades self) tid of
        None \<Rightarrow> self
      | Some trade \<Rightarrow>
          if tp_level = 1 then
            self\<lparr>orb_active_trades := AList.update tid
                    (trade\<lparr>orb_tp1_hit := True,
                           orb_position_size :=
                             py_int (real_of_int (orb_position_size trade) * 0.5)\<rparr>)
                    (orb_active_trades self)\<rparr>
          else if tp_level = 2 then
            self\<lparr>orb_active_trades := AList.update tid
                    (trade\<lparr>orb_tp2_hit := True,
                           orb_position_size :=
                             py_int (real_of_int (orb_position_size trade) * 0.25)\<rparr>)
                    (orb_active_trades self)\<rparr>
          else self)"

definition orb_close_trade :: "orb_bot \<Rightarrow> string \<Rightarrow> real \<Rightarrow> string \<Rightarrow> orb_bot" where
  "orb_close_trade self tid exit_p reason =
     (case map_of (orb_active_trades self) tid of
        None \<Rightarrow> self
      | Some trade \<Rightarrow>
          let pnl_v = (if orb_direction trade = LONG
                       then (exit_p - orb_entry_price trade) * real_of_int (orb_position_size trade)
                       else (orb_entry_price trade - exit_p) * real_of_int (orb_position_size trade));
              trade' = trade\<lparr>orb_exit_price := Some exit_p, orb_exit_reason := Some reason,
                             orb_pnl := Some pnl_v, orb_status := CLOSED\<rparr>;
              ds = orb_daily_stats self
          in self\<lparr>orb_trades_history := orb_trades_history self @ [trade'],
                   orb_active_trades := AList.delete tid (orb_active_trades self),
                   orb_daily_stats := ds
                     \<lparr>orb_daily_pnl := orb_daily_pnl ds + pnl_v,
                      orb_consecutive_losses :=
                        (if pnl_v < 0 then orb_consecutive_losses ds + 1 else 0)\<rparr>\<rparr>)"

definition orb_trailing_stop :: "orb_trade \<Rightarrow> orb_trade" where
  "orb_trailing_stop trade =
     (if orb_tp1_hit trade \<and> \<not> orb_tp2_hit trade then
        (case orb_direction trade of
           LONG \<Rightarrow>
             (let new_stop = orb_entry_price trade in
              if new_stop > orb_current_stop trade
              then trade\<lparr>orb_current_stop := new_stop\<rparr> else trade)
         | SHORT \<Rightarrow>
             (let new_stop = orb_entry_price trade in
              if new_stop < orb_current_stop trade
              then trade\<lparr>orb_current_stop := new_stop\<rparr> else trade))
      else trade)"

definition orb_update_trade_object ::
  "orb_bot \<Rightarrow> string \<Rightarrow> (orb_trade \<Rightarrow> orb_trade) \<Rightarrow> orb_bot" where
  "orb_update_trade_object self tid f =
     (case map_of (orb_active_trades self) tid of
        Some trade \<Rightarrow>
          self\<lparr>orb_active_trades := AList.update tid (f trade) (orb_active_trades self)\<rparr>
      | None \<Rightarrow>
          (case rev (orb_trades_history self) of
             [] \<Rightarrow> self
           | t # older \<Rightarrow> self\<lparr>orb_trades_history := rev older @ [f t]\<rparr>))"

definition orb_check_targets :: "orb_bot \<Rightarrow> string \<Rightarrow> orb_trade \<Rightarrow> real \<Rightarrow> orb_bot" where
  "orb_check_targets self tid trade current_price =
     (case orb_direction trade of
        LONG \<Rightarrow>
          if \<not> orb_tp1_hit trade \<and> current_price \<ge> orb_target1 trade
          then orb_hit_take_profit self tid 1 current_price
          else if \<not> orb_tp2_hit trade \<and> current_price \<ge> orb_target2 trade
          then orb_hit_take_profit self tid 2 current_price
          else if current_price \<ge> orb_target3 trade
          then orb_close_trade self tid current_price ''Target 3 Hit''
          else self
      | SHORT \<Rightarrow>
          if \<not> orb_tp1_hit trade \<and> current_price \<le> orb_target1 trade
          then orb_hit_take_profit self tid 1 current_price
          else if \<not> orb_tp2_hit trade \<and> current_price \<le> orb_target2 trade
          then orb_hit_take_profit self tid 2 current_price
          else if current_price \<le> orb_target3 trade
          then orb_close_trade self tid current_price ''Target 3 Hit''
          else self)"

definition orb_monitor_trade :: "orb_bot \<Rightarrow> string \<Rightarrow> real option \<Rightarrow> orb_bot" where
  "orb_monitor_trade self tid fetched =
     (case map_of (orb_active_trades self) tid of
        None \<Rightarrow> self
      | Some trade \<Rightarrow>
          (case fetched of
             None \<Rightarrow> self
           | Some current_price \<Rightarrow>
               if orb_direction trade = LONG \<and> current_price \<le> orb_current_stop trade
               then orb_close_trade self tid current_price ''Stop Loss Hit''
               else if orb_direction trade = SHORT \<and> current_price \<ge> orb_current_stop trade
               then orb_close_trade self tid current_price ''Stop Loss Hit''
               else orb_update_trade_object (orb_check_targets self tid trade current_price)
                      tid orb_trailing_stop))"

definition orb_monitor_active_trades :: "orb_bot \<Rightarrow> (string \<Rightarrow> real option) \<Rightarrow> orb_bot" where
  "orb_monitor_active_trades self prices =
     fold (\<lambda>tid s. orb_monitor_trade s tid (prices tid)) (map fst (orb_active_trades self)) self"

section \<open>Concrete runs\<close>

text \<open>
  A run of the engine that the theorems below evaluate: a fresh bot with an account of
  50000 and 1 percent risk per trade captures the opening range of four bars, confirms a long
  breakout, opens the trade and monitors it.
\<close>

definition flat_bar :: "real \<Rightarrow> real \<Rightarrow> real \<Rightarrow> bar" where
  "flat_bar h l v = \<lparr>bar_open = l, high = h, low = l, close = h, volume = v\<rparr>"

definition example_bars :: "bar list" where
  "example_bars = [flat_bar 9.95 9.10 1000, flat_bar 9.9 9.5 1000,
                   flat_bar 9.9 9.5 1000, flat_bar 9.95 9.9 5000]"

definition example_bot :: bot where
  "example_bot = fst (calculate_opening_range (init_bot 50000 0.01) ''AAPL'' (Some example_bars))"

definition example_bias :: "bool \<Rightarrow> bias_result" where
  "example_bias a = \<lparr>bias_15m = BULLISH, bias_1h = (if a then BULLISH else BEARISH), aligned = a\<rparr>"

definition example_proposal :: entry_proposal where
  "example_proposal =
     \<lparr>direction = LONG, entry_price = 10, stop_loss = 9, target1 = 12.5,
      target2 = 13.5, target3 = 11.7, target_rr = 2.5,
      market_condition = NORMAL,
      confirmations = \<lparr>volume_strong = False, bias_aligned = True, market_suitable = True,
                        volume_surge_ok = True\<rparr>,
      volume_analysis = \<lparr>volume_surge = 2.5, volume_trend = 1, is_strong_volume = False,
                          avg_volume_20 = 2000, current_volume = 5000\<rparr>,
      bias_analysis = example_bias True\<rparr>"

definition range_105_100 :: opening_range where
  "range_105_100 =
     \<lparr>or_symbol = ''AAPL'', orh = 105, orl = 100, range_size = 5, volume_avg = 2000\<rparr>"

definition example_bot_at_limit :: bot where
  "example_bot_at_limit =
     example_bot\<lparr>daily_stats := (daily_stats example_bot)\<lparr>trades_today := 5\<rparr>\<rparr>"

definition example_tid :: string where
  "example_tid = ''AAPL_1700000000''"

definition example_trade :: trade where
  "example_trade =
     \<lparr>direction = LONG, entry_price = 10, stop_loss = 9, target1 = 12.5,
      target2 = 13.5, target3 = 11.7, target_rr = 2.5,
      market_condition = NORMAL,
      confirmations = confirmations example_proposal,
      volume_analysis = volume_analysis example_proposal,
      bias_analysis = bias_analysis example_proposal,
      trade_id = example_tid, symbol = ''AAPL'', position_size = 100, risk_amount = 100,
      status = ACTIVE, tp1_hit = False, tp2_hit = False, current_stop = 9,
      exit_price = None, exit_reason = None, pnl = None, actual_rr = None\<rparr>"

definition example_open :: bot where
  "example_open = fst (execute_trade example_bot ''AAPL'' example_proposal 1700000000)"

definition example_after_tp1 :: bot where
  "example_after_tp1 = monitor_active_trades example_open (\<lambda>tid. Some 12.5)"

definition example_after_tp2 :: bot where
  "example_after_tp2 = monitor_active_trades example_after_tp1 (\<lambda>tid. Some 13.5)"

definition example_closed_after_tp1 :: bot where
  "example_closed_after_tp1 = monitor_active_trades example_after_tp1 (\<lambda>tid. Some 11.8)"

definition example_closed_trade :: trade where
  "example_closed_trade =
     example_trade\<lparr>tp1_hit := True, position_size := 50, current_stop := 10,
        exit_price := Some 11.8, exit_reason := Some ''Target 3 Hit'', pnl := Some 90,
        actual_rr := Some 1.8, status := CLOSED\<rparr>"

text \<open>The same run on the basic engine, whose first two targets are at 2 and 3 times the risk.\<close>

definition orb_example_bot :: orb_bot where
  "orb_example_bot =
     fst (orb_calculate_opening_range (orb_init_bot 50000 0.01) ''AAPL'' (Some example_bars))"

definition orb_example_proposal :: orb_proposal where
  "orb_example_proposal =
     \<lparr>orb_direction = LONG, orb_entry_price = 10, orb_stop_loss = 9, orb_target1 = 12,
      orb_target2 = 13, orb_target3 = 11.7, volume_ok = True\<rparr>"

definition orb_example_trade :: orb_trade where
  "orb_example_trade =
     \<lparr>orb_direction = LONG, orb_entry_price = 10, orb_stop_loss = 9, orb_target1 = 12,
      orb_target2 = 13, orb_target3 = 11.7,
      orb_trade_id = example_tid, orb_symbol = ''AAPL'', orb_position_size = 100,
      orb_risk_amount = 100, orb_status = ACTIVE, orb_tp1_hit = False, orb_tp2_hit = False,
      orb_current_stop = 9, orb_exit_price = None, orb_exit_reason = None, orb_pnl = None\<rparr>"

definition orb_example_open :: orb_bot where
  "orb_example_open = fst (orb_execute_trade orb_example_bot ''AAPL'' orb_example_proposal 1700000000)"

definition orb_example_after_tp1 :: orb_bot where
  "orb_example_after_tp1 = orb_monitor_active_trades orb_example_open (\<lambda>tid. Some 12)"

definition orb_example_after_tp2 :: orb_bot where
  "orb_example_after_tp2 = orb_monitor_active_trades orb_example_after_tp1 (\<lambda>tid. Some 13)"

definition orb_example_bot_at_limit :: orb_bot where
  "orb_example_bot_at_limit =
     orb_example_bot\<lparr>orb_daily_stats := (orb_daily_stats orb_example_bot)\<lparr>orb_trades_today := 3\<rparr>\<rparr>"

section \<open>Predicates of the stop invariant\<close>

definition tightened :: "trade \<Rightarrow> trade \<Rightarrow> bool" where
  \<comment> \<open>The second trade is the first one later: same direction, entry and original stop,
      and a current stop that has not moved away from the entry.\<close>
  "tightened t t' \<longleftrightarrow>
     direction t' = direction t \<and> entry_price t' = entry_price t \<and> stop_loss t' = stop_loss t
     \<and> (case direction t of
          LONG \<Rightarrow> current_stop t \<le> current_stop t'
        | SHORT \<Rightarrow> current_stop t' \<le> current_stop t)"

definition active_tightened :: "bot \<Rightarrow> bot \<Rightarrow> bool" where
  "active_tightened s s' \<longleftrightarrow>
     (\<forall>tid t'. map_of (active_trades s') tid = Some t' \<longrightarrow>
        (\<exists>t. map_of (active_trades s) tid = Some t \<and> tightened t t'))"

definition orb_tightened :: "orb_trade \<Rightarrow> orb_trade \<Rightarrow> bool" where
  "orb_tightened t t' \<longleftrightarrow>
     orb_direction t' = orb_direction t \<and> orb_entry_price t' = orb_entry_price t
     \<and> orb_stop_loss t' = orb_stop_loss t
     \<and> (case orb_direction t of
          LONG \<Rightarrow> orb_current_stop t \<le> orb_current_stop t'
        | SHORT \<Rightarrow> orb_current_stop t' \<le> orb_current_stop t)"

definition orb_active_tightened :: "orb_bot \<Rightarrow> orb_bot \<Rightarrow> bool" where
  "orb_active_tightened s s' \<longleftrightarrow>
     (\<forall>tid t'. map_of (orb_active_trades s') tid = Some t' \<longrightarrow>
        (\<exists>t. map_of (orb_active_trades s) tid = Some t \<and> orb_tightened t t'))"

section \<open>Facts about the helpers and the concrete runs\<close>

lemma series_max_eq: "xs \<noteq> [] \<Longrightarrow> series_max xs = Max (set xs)"
  by (cases xs) (simp_all add: series_max_def Max.set_eq_fold [symmetric])

lemma series_min_eq: "xs \<noteq> [] \<Longrightarrow> series_min xs = Min (set xs)"
  by (cases xs) (simp_all add: series_min_def Min.set_eq_fold [symmetric])

lemma example_bot_eq:
  "example_bot = (init_bot 50000 0.01)\<lparr>opening_ranges :=
      [(''AAPL'', \<lparr>or_symbol = ''AAPL'', orh = 9.95, orl = 9.10, range_size = 0.85,
                   volume_avg = 2000\<rparr>)]\<rparr>"
  by (simp add: example_bot_def calculate_opening_range_def example_bars_def flat_bar_def
      series_max_def series_min_def mean_def init_bot_def Let_def)

lemma example_volume_analysis:
  "enhanced_volume_analysis example_bars =
     \<lparr>volume_surge = 2.5, volume_trend = 1, is_strong_volume = False,
      avg_volume_20 = 2000, current_volume = 5000\<rparr>"
  by (simp add: enhanced_volume_analysis_def volume_analysis_body_def example_bars_def
      flat_bar_def mean_def tail_def Let_def)

lemma example_bars_nonempty: "example_bars \<noteq> []"
  by (simp add: example_bars_def)

lemma example_entry:
  "enhanced_entry_conditions example_bot ''AAPL'' 9.97 5000 (Some example_bars) (NORMAL, 2.5)
     (example_bias True) = Proposal example_proposal"
  by (simp add: enhanced_entry_conditions_def example_bot_eq example_volume_analysis
      entry_confirmations_def confirmation_count_def example_proposal_def init_bot_def
      example_bias_def example_bars_nonempty Let_def)

lemma str_int_example: "str_int 1700000000 = ''1700000000''"
  by (simp add: str_int_def str_nat.simps digit_char_def)

lemma example_position_size:
  "calculate_position_size example_bot 10 9 NORMAL = 100"
  by (simp add: calculate_position_size_def example_bot_eq init_bot_def risk_multiplier_def
      py_int_def Let_def)

lemma example_open_eq:
  "example_open = example_bot\<lparr>active_trades := [(example_tid, example_trade)],
      daily_stats := (daily_stats example_bot)\<lparr>trades_today := 1\<rparr>\<rparr>"
  by (simp add: example_open_def execute_trade_def example_position_size str_int_example
      example_proposal_def example_tid_def example_trade_def Let_def)
    (simp add: example_bot_eq init_bot_def)

lemma example_after_tp1_eq:
  "example_after_tp1 = example_open\<lparr>active_trades :=
      [(example_tid, example_trade\<lparr>tp1_hit := True, position_size := 50, current_stop := 10\<rparr>)]\<rparr>"
  by (simp add: example_after_tp1_def monitor_active_trades_def monitor_trade_def
      check_targets_def hit_take_profit_def update_trade_object_def trailing_stop_def
      example_open_eq example_trade_def py_int_def Let_def)

lemma example_after_tp2_eq:
  "example_after_tp2 = example_open\<lparr>active_trades :=
      [(example_tid, example_trade\<lparr>tp1_hit := True, tp2_hit := True, position_size := 12,
          current_stop := 10\<rparr>)]\<rparr>"
  by (simp add: example_after_tp2_def monitor_active_trades_def monitor_trade_def
      check_targets_def hit_take_profit_def update_trade_object_def trailing_stop_def
      example_after_tp1_eq example_open_eq example_trade_def py_int_def Let_def)

lemma example_closed_after_tp1_eq:
  "example_closed_after_tp1 = example_open\<lparr>active_trades := [],
      trades_history := [example_closed_trade],
      daily_stats := \<lparr>trades_today = 1, daily_pnl = 90, consecutive_losses = 0,
                      win_rate = 100, avg_rr_achieved = 1.8\<rparr>\<rparr>"
  by (simp add: example_closed_after_tp1_def monitor_active_trades_def monitor_trade_def
      check_targets_def close_trade_def update_trade_object_def trailing_stop_def
      winning_trades_def total_rr_def example_closed_trade_def
      example_after_tp1_eq example_open_eq example_trade_def example_bot_eq init_bot_def Let_def)

lemma orb_example_bot_eq:
  "orb_example_bot = (orb_init_bot 50000 0.01)\<lparr>orb_opening_ranges :=
      [(''AAPL'', \<lparr>or_symbol = ''AAPL'', orh = 9.95, orl = 9.10, range_size = 0.85,
                   volume_avg = 2000\<rparr>)]\<rparr>"
  by (simp add: orb_example_bot_def orb_calculate_opening_range_def example_bars_def flat_bar_def
      orb_calculate_volume_average_def series_max_def series_min_def mean_def orb_init_bot_def
      Let_def)

lemma orb_example_breakout:
  "orb_check_breakout_conditions orb_example_bot ''AAPL'' 9.97 5000
     = (Some orb_example_proposal, ''Bullish breakout detected'')"
  by (simp add: orb_check_breakout_conditions_def orb_example_bot_eq orb_init_bot_def
      orb_example_proposal_def Let_def)

lemma orb_example_position_size:
  "orb_calculate_position_size orb_example_bot 10 9 = 100"
  by (simp add: orb_calculate_position_size_def orb_example_bot_eq orb_init_bot_def
      py_int_def Let_def)

lemma orb_example_open_eq:
  "orb_example_open = orb_example_bot\<lparr>orb_active_trades := [(example_tid, orb_example_trade)],
      orb_daily_stats := (orb_daily_stats orb_example_bot)\<lparr>orb_trades_today := 1\<rparr>\<rparr>"
  by (simp add: orb_example_open_def orb_execute_trade_def orb_example_position_size
      str_int_example orb_example_proposal_def example_tid_def orb_example_trade_def Let_def)
    (simp add: orb_example_bot_eq orb_init_bot_def)

lemma orb_example_after_tp1_eq:
  "orb_example_after_tp1 = orb_example_open\<lparr>orb_active_trades :=
      [(example_tid, orb_example_trade\<lparr>orb_tp1_hit := True, orb_position_size := 50,
          orb_current_stop := 10\<rparr>)]\<rparr>"
  by (simp add: orb_example_after_tp1_def orb_monitor_active_trades_def orb_monitor_trade_def
      orb_check_targets_def orb_hit_take_profit_def orb_update_trade_object_def
      orb_trailing_stop_def orb_example_open_eq orb_example_trade_def py_int_def Let_def)

lemma orb_example_after_tp2_eq:
  "orb_example_after_tp2 = orb_example_open\<lparr>orb_active_trades :=
      [(example_tid, orb_example_trade\<lparr>orb_tp1_hit := True, orb_tp2_hit := True,
          orb_position_size := 12, orb_current_stop := 10\<rparr>)]\<rparr>"
  by (simp add: orb_example_after_tp2_def orb_monitor_active_trades_def orb_monitor_trade_def
      orb_check_targets_def orb_hit_take_profit_def orb_update_trade_object_def
      orb_trailing_stop_def orb_example_after_tp1_eq orb_example_open_eq orb_example_trade_def
      py_int_def Let_def)

lemma opening_range_levels:
  assumes "data \<noteq> []"
  shows "series_max (map high (take 6 data)) = Max (high ` set (take 6 data))"
    and "series_min (map low (take 6 data)) = Min (low ` set (take 6 data))"
    and "(\<exists>b \<in> set (take 6 data). low b \<le> high b) \<longrightarrow>
           Min (low ` set (take 6 data)) \<le> Max (high ` set (take 6 data))"
proof -
  let ?w = "take 6 data"
  from assms have ne: "?w \<noteq> []" by (cases data) simp_all
  show "series_max (map high ?w) = Max (high ` set ?w)"
    using ne by (simp add: series_max_eq)
  show "series_min (map low ?w) = Min (low ` set ?w)"
    using ne by (simp add: series_min_eq)
  show "(\<exists>b \<in> set ?w. low b \<le> high b) \<longrightarrow> Min (low ` set ?w) \<le> Max (high ` set ?w)"
  proof
    assume "\<exists>b \<in> set ?w. low b \<le> high b"
    then obtain b where b: "b \<in> set ?w" "low b \<le> high b" by blast
    have "Min (low ` set ?w) \<le> low b" using b(1) by simp
    also note b(2)
    also have "high b \<le> Max (high ` set ?w)" using b(1) by simp
    finally show "Min (low ` set ?w) \<le> Max (high ` set ?w)" .
  qed
qed

section \<open>Facts about double arithmetic\<close>

lemma bit_length_values: "bit_length 105 = 7" "bit_length 19 = 5" "bit_length 9 = 4" "bit_length 5 = 3"
  "bit_length 100 = 7" "bit_length 99 = 7" "bit_length 12 = 4" "bit_length 117 = 7" "bit_length 2 = 2"
  by (simp_all add: bit_length.simps)

lemma fl_005: "fl 0.05 = 3602879701896397 / 2 ^ 56"
  by (simp add: fl_def binade_def pow2_def round_half_even_def bit_length_values Let_def)

lemma fl_010: "fl 0.10 = 3602879701896397 / 2 ^ 55"
  by (simp add: fl_def binade_def pow2_def round_half_even_def bit_length_values Let_def)

lemma fl_10505: "fl 105.05 = 7392236575863603 / 2 ^ 46"
  by (simp add: fl_def binade_def pow2_def round_half_even_def bit_length_values Let_def)

lemma fl_515: "fl 5.15 = 2899192260119757 / 2 ^ 49"
  by (simp add: fl_def binade_def pow2_def round_half_even_def bit_length_values Let_def)


lemma double_entry: "fl (105 + fl 0.05) = 7392236575863603 / 2 ^ 46"
  by (simp add: fl_005) (simp add: fl_def binade_def pow2_def round_half_even_def bit_length_values Let_def)

lemma double_stop: "fl (100 - fl 0.10) = 3514918771674317 / 2 ^ 45"
  by (simp add: fl_010) (simp add: fl_def binade_def pow2_def round_half_even_def bit_length_values Let_def)

lemma double_risk: "fl (7392236575863603 / 2 ^ 46 - 3514918771674317 / 2 ^ 45) = 362399032514969 / 2 ^ 46"
  by (simp add: fl_def binade_def pow2_def round_half_even_def bit_length_values Let_def)

lemma double_reward: "fl (2.5 * (362399032514969 / 2 ^ 46)) = 1811995162574845 / 2 ^ 47"
  by (simp add: fl_def binade_def pow2_def round_half_even_def bit_length_values Let_def)

lemma double_target1: "fl (7392236575863603 / 2 ^ 46 + 1811995162574845 / 2 ^ 47) = 4149117078575513 / 2 ^ 45"
  by (simp add: fl_def binade_def pow2_def round_half_even_def bit_length_values Let_def)

lemma long_levels_double_105_100:
  "long_levels_double 105 100 2.5 =
     \<lparr>lv_entry = 7392236575863603 / 2 ^ 46, lv_stop = 3514918771674317 / 2 ^ 45,
      lv_risk = 362399032514969 / 2 ^ 46, lv_target1 = 4149117078575513 / 2 ^ 45\<rparr>"
  unfolding long_levels_double_def long_levels_def Let_def
    double_entry double_stop double_risk double_reward double_target1
  by (rule refl)

lemma fl_9990: "fl 99.90 = 3514918771674317 / 2 ^ 45"
  by (simp add: fl_def binade_def pow2_def round_half_even_def bit_length_values Let_def)

lemma fl_117925: "fl 117.925 = 8298234157151027 / 2 ^ 46"
  by (simp add: fl_def binade_def pow2_def round_half_even_def bit_length_values Let_def)

lemma bit_length_bounds:
  "0 < n \<Longrightarrow> 2 ^ (bit_length n - 1) \<le> n \<and> n < 2 ^ bit_length n"
proof (induction n rule: bit_length.induct)
  case (1 n)
  show ?case
  proof (cases "n div 2 = 0")
    case True
    with "1.prems" have "n = 1" by (simp add: div_eq_0_iff) 
    then show ?thesis by (simp add: bit_length.simps)
  next
    case False
    then have pos: "0 < n div 2" by simp
    from "1.IH" [OF _ pos] "1.prems"
    have ih: "2 ^ (bit_length (n div 2) - 1) \<le> n div 2" "n div 2 < 2 ^ bit_length (n div 2)"
      by simp_all
    have bl: "bit_length n = Suc (bit_length (n div 2))"
      using "1.prems" by (subst bit_length.simps) simp
    have bp: "0 < bit_length (n div 2)"
      using pos by (subst bit_length.simps) simp
    then obtain k where k: "bit_length (n div 2) = Suc k" by (cases "bit_length (n div 2)") auto
    from ih k have "2 ^ k \<le> n div 2" "n div 2 < 2 ^ Suc k" by simp_all
    then have "2 ^ Suc k \<le> n" "n < 2 ^ Suc (Suc k)" by auto
    then show ?thesis by (simp add: bl k)
  qed
qed

lemma binade_bounds:
  assumes "x \<noteq> 0"
  shows "pow2 (binade x) \<le> \<bar>x\<bar> \<and> \<bar>x\<bar> < pow2 (binade x + 1)"
proof (cases "1 \<le> \<bar>x\<bar>")
  case True
  define n where "n = nat \<lfloor>\<bar>x\<bar>\<rfloor>"
  have n: "0 < n" "real n \<le> \<bar>x\<bar>" "\<bar>x\<bar> < real n + 1"
    using True by (simp_all add: n_def)
  from bit_length_bounds [OF n(1)]
  have b: "2 ^ (bit_length n - 1) \<le> n" "n + 1 \<le> 2 ^ bit_length n" by simp_all
  have bp: "0 < bit_length n" using n(1) by (subst bit_length.simps) simp
  have r1: "(2::real) ^ (bit_length n - 1) \<le> real n"
    using of_nat_mono [OF b(1), where 'a = real] by simp
  have r2: "real n + 1 \<le> 2 ^ bit_length n"
    using of_nat_mono [OF b(2), where 'a = real] by simp
  have bin: "binade x = int (bit_length n) - 1"
    using True by (simp add: binade_def n_def)
  have p1: "pow2 (binade x) = 2 ^ (bit_length n - 1)"
    using bp by (simp add: pow2_def bin nat_diff_distrib)
  have p2: "pow2 (binade x + 1) = 2 ^ bit_length n"
    by (simp add: pow2_def bin)
  have "2 ^ (bit_length n - 1) \<le> \<bar>x\<bar>" using r1 n(2) by (rule order_trans)
  moreover have "\<bar>x\<bar> < 2 ^ bit_length n" using n(3) r2 by (rule less_le_trans)
  ultimately show ?thesis unfolding p1 p2 by (rule conjI)
next
  case False
  then have lt: "\<bar>x\<bar> < 1" and pos: "0 < \<bar>x\<bar>" using assms by simp_all
  define y where "y = 1 / \<bar>x\<bar>"
  have y: "1 < y" using lt pos by (simp add: y_def)
  define m where "m = nat (\<lceil>y\<rceil> - 1)"
  have c: "2 \<le> \<lceil>y\<rceil>" using y by linarith
  have m1: "0 < m" using c by (simp add: m_def)
  have m2: "real m < y" using c by (simp add: m_def of_nat_nat) linarith
  have m3: "y \<le> real m + 1" using c by (simp add: m_def of_nat_nat)
  from bit_length_bounds [OF m1]
  have b: "2 ^ (bit_length m - 1) \<le> m" "m + 1 \<le> 2 ^ bit_length m" by simp_all
  have bp: "0 < bit_length m" using m1 by (subst bit_length.simps) simp
  have r1: "(2::real) ^ (bit_length m - 1) \<le> real m"
    using of_nat_mono [OF b(1), where 'a = real] by simp
  have r2: "real m + 1 \<le> 2 ^ bit_length m"
    using of_nat_mono [OF b(2), where 'a = real] by simp
  have bin: "binade x = - int (bit_length m)"
    using False by (simp add: binade_def m_def y_def)
  have p1: "pow2 (binade x) = 1 / 2 ^ bit_length m"
    using bp by (simp add: pow2_def bin)
  have p2: "pow2 (binade x + 1) = 1 / 2 ^ (bit_length m - 1)"
  proof (cases "bit_length m = 1")
    case True
    then show ?thesis by (simp add: pow2_def bin)
  next
    case False
    with bp have "1 < bit_length m" by simp
    then have "nat (int (bit_length m) - 1) = bit_length m - 1" by simp
    then show ?thesis using \<open>1 < bit_length m\<close> by (simp add: pow2_def bin)
  qed
  have lo: "1 / 2 ^ bit_length m \<le> \<bar>x\<bar>"
  proof -
    have "y \<le> 2 ^ bit_length m" using m3 r2 by (rule order_trans)
    then have "1 / \<bar>x\<bar> \<le> 2 ^ bit_length m" by (simp add: y_def)
    then show ?thesis using pos by (simp add: field_simps)
  qed
  have hi: "\<bar>x\<bar> < 1 / 2 ^ (bit_length m - 1)"
  proof -
    have "2 ^ (bit_length m - 1) < y" using r1 m2 by (rule le_less_trans)
    then have "2 ^ (bit_length m - 1) < 1 / \<bar>x\<bar>" by (simp add: y_def)
    then show ?thesis using pos by (simp add: field_simps)
  qed
  show ?thesis unfolding p1 p2 using lo hi by (rule conjI)
qed

lemma round_half_even_error: "\<bar>of_int (round_half_even y) - y\<bar> \<le> 1 / 2"
  by (simp add: round_half_even_def Let_def)

lemma pow2_pos: "0 < pow2 k"
  by (simp add: pow2_def)

lemma fl_error:
  assumes "x \<noteq> 0"
  shows "\<bar>fl x - x\<bar> \<le> pow2 (binade x - 52) / 2"
proof -
  define u where "u = pow2 (binade x - 52)"
  have u: "0 < u" by (simp add: u_def pow2_pos)
  have "fl x - x = u * (of_int (round_half_even (x / u)) - x / u)"
    using assms u by (simp add: fl_def u_def Let_def field_simps)
  then have "\<bar>fl x - x\<bar> = u * \<bar>of_int (round_half_even (x / u)) - x / u\<bar>"
    using u by (simp add: abs_mult)
  also have "\<dots> \<le> u * (1 / 2)"
    using u round_half_even_error [of "x / u"] by (intro mult_left_mono) simp_all
  finally show ?thesis by (simp add: u_def)
qed

section \<open>Stops only tighten: the invariant\<close>

lemma tightened_refl: "tightened t t"
  by (simp add: tightened_def split: direction.splits)

lemma tightened_trans: "tightened a b \<Longrightarrow> tightened b c \<Longrightarrow> tightened a c"
  by (auto simp add: tightened_def split: direction.splits)

lemma active_tightened_refl: "active_tightened s s"
  by (simp add: active_tightened_def tightened_refl)

lemma active_tightened_trans:
  "active_tightened a b \<Longrightarrow> active_tightened b c \<Longrightarrow> active_tightened a c"
  unfolding active_tightened_def by (meson tightened_trans)

lemma tightened_trailing_stop: "tightened t (trailing_stop t)"
  by (simp add: tightened_def trailing_stop_def Let_def split: direction.splits)

lemma active_tightened_update:
  assumes "map_of (active_trades s) tid = Some t" and "tightened t t'"
  shows "active_tightened s (s\<lparr>active_trades := AList.update tid t' (active_trades s)\<rparr>)"
  using assms by (auto simp add: active_tightened_def update_conv' tightened_refl)

lemma active_tightened_hit_take_profit:
  "active_tightened s (hit_take_profit s tid lvl p)"
proof (cases "map_of (active_trades s) tid")
  case None
  then show ?thesis by (simp add: hit_take_profit_def active_tightened_refl)
next
  case (Some t)
  have 1: "tightened t (t\<lparr>tp1_hit := True, position_size := n\<rparr>)" for n
    by (simp add: tightened_def split: direction.splits)
  have 2: "tightened t (t\<lparr>tp2_hit := True, position_size := n\<rparr>)" for n
    by (simp add: tightened_def split: direction.splits)
  show ?thesis
    using Some active_tightened_update [OF Some 1] active_tightened_update [OF Some 2]
    by (simp add: hit_take_profit_def active_tightened_refl)
qed

lemma active_trades_close_trade:
  "map_of (active_trades (close_trade s tid p r)) =
     (case map_of (active_trades s) tid of
        None \<Rightarrow> map_of (active_trades s)
      | Some t \<Rightarrow> (map_of (active_trades s))(tid := None))"
  by (simp add: close_trade_def Let_def delete_conv' split: option.splits)

lemma active_tightened_close_trade:
  "active_tightened s (close_trade s tid p r)"
  by (auto simp add: active_tightened_def active_trades_close_trade tightened_refl
      split: option.splits if_splits)

lemma active_tightened_trailing:
  "active_tightened s (update_trade_object s tid trailing_stop)"
proof (cases "map_of (active_trades s) tid")
  case None
  then show ?thesis
    by (auto simp add: update_trade_object_def active_tightened_def tightened_refl
        split: list.splits)
next
  case (Some t)
  then show ?thesis
    using active_tightened_update [OF Some tightened_trailing_stop]
    by (simp add: update_trade_object_def)
qed

lemma active_tightened_check_targets:
  "active_tightened s (check_targets s tid t p)"
  by (simp add: check_targets_def active_tightened_hit_take_profit active_tightened_close_trade
      active_tightened_refl split: direction.splits)

lemma active_tightened_monitor_trade:
  "active_tightened s (monitor_trade s tid fetched)"
  by (auto simp add: monitor_trade_def active_tightened_refl active_tightened_close_trade
      intro: active_tightened_trans [OF active_tightened_check_targets active_tightened_trailing]
      split: option.splits)

lemma active_tightened_monitor_loop:
  "active_tightened s (fold (\<lambda>tid s. monitor_trade s tid (prices tid)) tids s)"
proof (induction tids arbitrary: s)
  case Nil
  show ?case by (simp add: active_tightened_refl)
next
  case (Cons tid tids)
  show ?case
    using active_tightened_trans [OF active_tightened_monitor_trade Cons.IH] by simp
qed

lemma active_tightened_monitor_active_trades:
  "active_tightened s (monitor_active_trades s prices)"
  by (simp add: monitor_active_trades_def active_tightened_monitor_loop)

lemma active_tightened_ticks:
  "active_tightened s (fold (\<lambda>prices s. monitor_active_trades s prices) feeds s)"
proof (induction feeds arbitrary: s)
  case Nil
  show ?case by (simp add: active_tightened_refl)
next
  case (Cons prices feeds)
  show ?case
    using active_tightened_trans [OF active_tightened_monitor_active_trades Cons.IH] by simp
qed

lemma orb_tightened_refl: "orb_tightened t t"
  by (simp add: orb_tightened_def split: direction.splits)

lemma orb_tightened_trans: "orb_tightened a b \<Longrightarrow> orb_tightened b c \<Longrightarrow> orb_tightened a c"
  by (auto simp add: orb_tightened_def split: direction.splits)

lemma orb_active_tightened_refl: "orb_active_tightened s s"
  by (simp add: orb_active_tightened_def orb_tightened_refl)

lemma orb_active_tightened_trans:
  "orb_active_tightened a b \<Longrightarrow> orb_active_tightened b c \<Longrightarrow> orb_active_tightened a c"
  unfolding orb_active_tightened_def by (meson orb_tightened_trans)

lemma orb_tightened_trailing_stop: "orb_tightened t (orb_trailing_stop t)"
  by (simp add: orb_tightened_def orb_trailing_stop_def Let_def split: direction.splits)

lemma orb_active_tightened_update:
  assumes "map_of (orb_active_trades s) tid = Some t" and "orb_tightened t t'"
  shows "orb_active_tightened s (s\<lparr>orb_active_trades := AList.update tid t' (orb_active_trades s)\<rparr>)"
  using assms by (auto simp add: orb_active_tightened_def update_conv' orb_tightened_refl)

lemma orb_active_tightened_hit_take_profit:
  "orb_active_tightened s (orb_hit_take_profit s tid lvl p)"
proof (cases "map_of (orb_active_trades s) tid")
  case None
  then show ?thesis by (simp add: orb_hit_take_profit_def orb_active_tightened_refl)
next
  case (Some t)
  have 1: "orb_tightened t (t\<lparr>orb_tp1_hit := True, orb_position_size := n\<rparr>)" for n
    by (simp add: orb_tightened_def split: direction.splits)
  have 2: "orb_tightened t (t\<lparr>orb_tp2_hit := True, orb_position_size := n\<rparr>)" for n
    by (simp add: orb_tightened_def split: direction.splits)
  show ?thesis
    using Some orb_active_tightened_update [OF Some 1] orb_active_tightened_update [OF Some 2]
    by (simp add: orb_hit_take_profit_def orb_active_tightened_refl)
qed

lemma orb_active_trades_close_trade:
  "map_of (orb_active_trades (orb_close_trade s tid p r)) =
     (case map_of (orb_active_trades s) tid of
        None \<Rightarrow> map_of (orb_active_trades s)
      | Some t \<Rightarrow> (map_of (orb_active_trades s))(tid := None))"
  by (simp add: orb_close_trade_def Let_def delete_conv' split: option.splits)

lemma orb_active_tightened_close_trade:
  "orb_active_tightened s (orb_close_trade s tid p r)"
  by (auto simp add: orb_active_tightened_def orb_active_trades_close_trade orb_tightened_refl
      split: option.splits if_splits)

lemma orb_active_tightened_trailing:
  "orb_active_tightened s (orb_update_trade_object s tid orb_trailing_stop)"
proof (cases "map_of (orb_active_trades s) tid")
  case None
  then show ?thesis
    by (auto simp add: orb_update_trade_object_def orb_active_tightened_def orb_tightened_refl
        split: list.splits)
next
  case (Some t)
  then show ?thesis
    using orb_active_tightened_update [OF Some orb_tightened_trailing_stop]
    by (simp add: orb_update_trade_object_def)
qed

lemma orb_active_tightened_check_targets:
  "orb_active_tightened s (orb_check_targets s tid t p)"
  by (simp add: orb_check_targets_def orb_active_tightened_hit_take_profit
      orb_active_tightened_close_trade orb_active_tightened_refl split: direction.splits)

lemma orb_active_tightened_monitor_trade:
  "orb_active_tightened s (orb_monitor_trade s tid fetched)"
  by (auto simp add: orb_monitor_trade_def orb_active_tightened_refl
      orb_active_tightened_close_trade
      intro: orb_active_tightened_trans [OF orb_active_tightened_check_targets
                orb_active_tightened_trailing]
      split: option.splits)

lemma orb_active_tightened_monitor_loop:
  "orb_active_tightened s (fold (\<lambda>tid s. orb_monitor_trade s tid (prices tid)) tids s)"
proof (induction tids arbitrary: s)
  case Nil
  show ?case by (simp add: orb_active_tightened_refl)
next
  case (Cons tid tids)
  show ?case
    using orb_active_tightened_trans [OF orb_active_tightened_monitor_trade Cons.IH] by simp
qed

lemma orb_active_tightened_monitor_active_trades:
  "orb_active_tightened s (orb_monitor_active_trades s prices)"
  by (simp add: orb_monitor_active_trades_def orb_active_tightened_monitor_loop)

lemma orb_active_tightened_ticks:
  "orb_active_tightened s (fold (\<lambda>prices s. orb_monitor_active_trades s prices) feeds s)"
proof (induction feeds arbitrary: s)
  case Nil
  show ?case by (simp add: orb_active_tightened_refl)
next
  case (Cons prices feeds)
  show ?case
    using orb_active_tightened_trans [OF orb_active_tightened_monitor_active_trades Cons.IH]
    by simp
qed

lemma stop_tightens:
  assumes "map_of (active_trades s) tid = Some t"
    and "map_of (active_trades (fold (\<lambda>prices s. monitor_active_trades s prices) feeds s)) tid = Some t'"
  shows "direction t' = direction t
         \<and> (direction t = LONG \<longrightarrow> current_stop t \<le> current_stop t')
         \<and> (direction t = SHORT \<longrightarrow> current_stop t' \<le> current_stop t)"
proof -
  from active_tightened_ticks [of s feeds] assms(2)
  obtain t0 where "map_of (active_trades s) tid = Some t0" and "tightened t0 t'"
    unfolding active_tightened_def by blast
  with assms(1) have "tightened t t'" by simp
  then show ?thesis
    by (auto simp add: tightened_def split: direction.splits)
qed

lemma orb_stop_tightens:
  assumes "map_of (orb_active_trades s) tid = Some t"
    and "map_of (orb_active_trades (fold (\<lambda>prices s. orb_monitor_active_trades s prices) feeds s)) tid
           = Some t'"
  shows "orb_direction t' = orb_direction t
         \<and> (orb_direction t = LONG \<longrightarrow> orb_current_stop t \<le> orb_current_stop t')
         \<and> (orb_direction t = SHORT \<longrightarrow> orb_current_stop t' \<le> orb_current_stop t)"
proof -
  from orb_active_tightened_ticks [of s feeds] assms(2)
  obtain t0 where "map_of (orb_active_trades s) tid = Some t0" and "orb_tightened t0 t'"
    unfolding orb_active_tightened_def by blast
  with assms(1) have "orb_tightened t t'" by simp
  then show ?thesis
    by (auto simp add: orb_tightened_def split: direction.splits)
qed

section \<open>Statistics written by a close: both engines\<close>

lemma close_trade_stats:
  assumes "map_of (active_trades self) tid = Some trade"
    and "list_all (\<lambda>t. pnl t \<noteq> None) (trades_history self)"
  shows "\<exists>closed p.
           trades_history (close_trade self tid exit_p reason) = trades_history self @ [closed]
         \<and> pnl closed = Some p
         \<and> p = (if direction trade = LONG
                then (exit_p - entry_price trade) * real_of_int (position_size trade)
                else (entry_price trade - exit_p) * real_of_int (position_size trade))
         \<and> consecutive_losses (daily_stats (close_trade self tid exit_p reason)) =
             (if p < 0 then consecutive_losses (daily_stats self) + 1 else 0)
         \<and> win_rate (daily_stats (close_trade self tid exit_p reason)) =
             real (length (filter (\<lambda>t. \<exists>x. pnl t = Some x \<and> 0 < x)
                     (trades_history (close_trade self tid exit_p reason))))
             / real (length (trades_history (close_trade self tid exit_p reason))) * 100"
proof -
  have f: "(\<lambda>t::trade. case pnl t of None \<Rightarrow> False | Some x \<Rightarrow> 0 < x)
           = (\<lambda>t. \<exists>x. pnl t = Some x \<and> 0 < x)"
    by (auto split: option.splits)
  show ?thesis
    using assms by (simp add: close_trade_def Let_def winning_trades_def f)
qed

lemma orb_close_trade_stats:
  assumes "map_of (orb_active_trades b) k = Some u"
  shows "\<exists>closed p.
           orb_trades_history (orb_close_trade b k exit_p reason) = orb_trades_history b @ [closed]
         \<and> orb_pnl closed = Some p
         \<and> p = (if orb_direction u = LONG
                then (exit_p - orb_entry_price u) * real_of_int (orb_position_size u)
                else (orb_entry_price u - exit_p) * real_of_int (orb_position_size u))
         \<and> orb_consecutive_losses (orb_daily_stats (orb_close_trade b k exit_p reason)) =
             (if p < 0 then orb_consecutive_losses (orb_daily_stats b) + 1 else 0)"
  using assms by (simp add: orb_close_trade_def Let_def)

section \<open>Take-profit sizes\<close>

text \<open>
  C1. In the concrete run, on either engine, the trade is opened with 100 shares. The
  first take-profit leaves \<open>int(100 * 0.5) = 50\<close>, half of the original size. The
  second take-profit leaves \<open>int(50 * 0.25) = 12\<close>, a quarter of what was left,
  where a quarter of the original size is 25.
\<close>

theorem second_take_profit_leaves_an_eighth:
  "position_size (the (map_of (active_trades example_open) example_tid)) = 100
   \<and> position_size (the (map_of (active_trades example_after_tp1) example_tid)) = 50
   \<and> position_size (the (map_of (active_trades example_after_tp2) example_tid)) = 12
   \<and> orb_position_size (the (map_of (orb_active_trades orb_example_open) example_tid)) = 100
   \<and> orb_position_size (the (map_of (orb_active_trades orb_example_after_tp1) example_tid)) = 50
   \<and> orb_position_size (the (map_of (orb_active_trades orb_example_after_tp2) example_tid)) = 12
   \<and> \<lfloor>(100::real) * 0.5\<rfloor> = 50
   \<and> \<lfloor>(100::real) * 0.25\<rfloor> = 25"
  by (simp add: example_after_tp2_eq example_after_tp1_eq example_open_eq example_trade_def
      orb_example_after_tp2_eq orb_example_after_tp1_eq orb_example_open_eq orb_example_trade_def)

section \<open>Achieved risk:reward\<close>

text \<open>
  C2, as stated, fails: the trade of the concrete run is opened with 100 shares, sells half
  at the first target and is closed at 11.8 with 50 shares. The recorded risk:reward is
  \<open>90 / (1 * 50) = 1.8\<close>, not the realized profit over the risk of the original size,
  \<open>90 / (1 * 100)\<close>.
\<close>

theorem achieved_rr_uses_original_size_counterexample:
  "position_size (the (map_of (active_trades example_open) example_tid)) = 100
   \<and> pnl (last (trades_history example_closed_after_tp1)) = Some 90
   \<and> actual_rr (last (trades_history example_closed_after_tp1)) = Some 1.8
   \<and> actual_rr (last (trades_history example_closed_after_tp1)) \<noteq>
       Some (the (pnl (last (trades_history example_closed_after_tp1)))
             / (\<bar>entry_price (last (trades_history example_closed_after_tp1))
                  - stop_loss (last (trades_history example_closed_after_tp1))\<bar>
                * real_of_int (position_size (the (map_of (active_trades example_open) example_tid)))))"
  by (simp add: example_closed_after_tp1_eq example_open_eq example_closed_trade_def
      example_trade_def)

text \<open>
  C2, amended. Closing an active trade records the realized profit or loss divided by
  \<open>|entry - original stop|\<close> times the position size that is left at the close, the
  same size the profit or loss is computed with, and 0 when that product is not positive.
\<close>

theorem close_trade_achieved_rr:
  assumes "map_of (active_trades self) tid = Some trade"
  shows "\<exists>closed p.
           trades_history (close_trade self tid exit_p reason) = trades_history self @ [closed]
         \<and> map_of (active_trades (close_trade self tid exit_p reason)) tid = None
         \<and> pnl closed = Some p
         \<and> p = (if direction trade = LONG
                then (exit_p - entry_price trade) * real_of_int (position_size trade)
                else (entry_price trade - exit_p) * real_of_int (position_size trade))
         \<and> actual_rr closed =
             Some (if \<bar>entry_price trade - stop_loss trade\<bar> * real_of_int (position_size trade) > 0
                   then p / (\<bar>entry_price trade - stop_loss trade\<bar> * real_of_int (position_size trade))
                   else 0)"
  using assms by (simp add: close_trade_def Let_def delete_conv')

theorem close_trade_achieved_rr_witness:
  "map_of (active_trades example_after_tp1) example_tid \<noteq> None
   \<and> map (\<lambda>t. (pnl t, actual_rr t)) (trades_history
         (close_trade example_after_tp1 example_tid 11.8 ''Target 3 Hit'')) = [(Some 90, Some 1.8)]"
proof -
  have a: "map_of (active_trades example_after_tp1) example_tid =
      Some (example_trade\<lparr>tp1_hit := True, position_size := 50, current_stop := 10\<rparr>)"
    by (simp add: example_after_tp1_eq)
  have h: "trades_history example_after_tp1 = []"
    by (simp add: example_after_tp1_eq example_open_eq example_bot_eq init_bot_def)
  from close_trade_achieved_rr [OF a, of "11.8" "''Target 3 Hit''"]
  show ?thesis
    by (auto simp add: a h example_trade_def)
qed

section \<open>Stops only tighten\<close>

text \<open>
  C3. On either engine, over any number of monitoring passes, with any prices, a trade
  that is still active keeps its direction, and its current stop has not decreased when it
  is LONG and has not increased when it is SHORT.
\<close>

theorem current_stop_never_loosens:
  "(map_of (active_trades s) tid = Some t \<longrightarrow>
    map_of (active_trades (fold (\<lambda>prices s. monitor_active_trades s prices) feeds s)) tid = Some t' \<longrightarrow>
      direction t' = direction t
      \<and> (direction t = LONG \<longrightarrow> current_stop t \<le> current_stop t')
      \<and> (direction t = SHORT \<longrightarrow> current_stop t' \<le> current_stop t))
   \<and> (map_of (orb_active_trades b) k = Some u \<longrightarrow>
      map_of (orb_active_trades (fold (\<lambda>prices s. orb_monitor_active_trades s prices) ticks b)) k
        = Some u' \<longrightarrow>
      orb_direction u' = orb_direction u
      \<and> (orb_direction u = LONG \<longrightarrow> orb_current_stop u \<le> orb_current_stop u')
      \<and> (orb_direction u = SHORT \<longrightarrow> orb_current_stop u' \<le> orb_current_stop u))"
  using stop_tightens [of s tid t feeds t'] orb_stop_tightens [of b k u ticks u'] by blast

theorem current_stop_never_loosens_witness:
  "map_of (active_trades example_open) example_tid = Some example_trade
   \<and> map_of (active_trades (fold (\<lambda>prices s. monitor_active_trades s prices)
         [\<lambda>tid. Some 12.5, \<lambda>tid. Some 13.5] example_open)) example_tid
       = Some (example_trade\<lparr>tp1_hit := True, tp2_hit := True, position_size := 12,
                 current_stop := 10\<rparr>)
   \<and> direction example_trade = LONG
   \<and> current_stop example_trade = 9
   \<and> map_of (orb_active_trades orb_example_open) example_tid = Some orb_example_trade
   \<and> map_of (orb_active_trades (fold (\<lambda>prices s. orb_monitor_active_trades s prices)
         [\<lambda>tid. Some 12, \<lambda>tid. Some 13] orb_example_open)) example_tid
       = Some (orb_example_trade\<lparr>orb_tp1_hit := True, orb_tp2_hit := True,
                 orb_position_size := 12, orb_current_stop := 10\<rparr>)
   \<and> orb_direction orb_example_trade = LONG
   \<and> orb_current_stop orb_example_trade = 9"
proof -
  have a: "map_of (active_trades example_open) example_tid = Some example_trade"
    by (simp add: example_open_eq)
  have f: "fold (\<lambda>prices s. monitor_active_trades s prices)
         [\<lambda>tid. Some 12.5, \<lambda>tid. Some 13.5] example_open = example_after_tp2"
    by (simp add: example_after_tp2_def example_after_tp1_def)
  have b: "map_of (active_trades (fold (\<lambda>prices s. monitor_active_trades s prices)
         [\<lambda>tid. Some 12.5, \<lambda>tid. Some 13.5] example_open)) example_tid
       = Some (example_trade\<lparr>tp1_hit := True, tp2_hit := True, position_size := 12,
                 current_stop := 10\<rparr>)"
    unfolding f by (simp add: example_after_tp2_eq)
  have a': "map_of (orb_active_trades orb_example_open) example_tid = Some orb_example_trade"
    by (simp add: orb_example_open_eq)
  have f': "fold (\<lambda>prices s. orb_monitor_active_trades s prices)
         [\<lambda>tid. Some 12, \<lambda>tid. Some 13] orb_example_open = orb_example_after_tp2"
    by (simp add: orb_example_after_tp2_def orb_example_after_tp1_def)
  have b': "map_of (orb_active_trades (fold (\<lambda>prices s. orb_monitor_active_trades s prices)
         [\<lambda>tid. Some 12, \<lambda>tid. Some 13] orb_example_open)) example_tid
       = Some (orb_example_trade\<lparr>orb_tp1_hit := True, orb_tp2_hit := True,
                 orb_position_size := 12, orb_current_stop := 10\<rparr>)"
    unfolding f' by (simp add: orb_example_after_tp2_eq)
  from current_stop_never_loosens [of example_open example_tid example_trade
      "[\<lambda>tid. Some 12.5, \<lambda>tid. Some 13.5]" _ orb_example_open example_tid orb_example_trade
      "[\<lambda>tid. Some 12, \<lambda>tid. Some 13]"] a b a' b'
  show ?thesis
    by (simp add: example_trade_def orb_example_trade_def)
qed

section \<open>Confirmation quorum\<close>

text \<open>
  C4. With bars fetched and an opening range stored, when the price is beyond the range in
  either direction and fewer than 3 of the 4 confirmation flags are true, the result is
  the rejection whose text reports the number of true flags.
\<close>

theorem quorum_rejects_with_count:
  assumes "fetched = Some data" and "data \<noteq> []"
    and "map_of (opening_ranges self) symb = Some orb"
    and "current_price > orh orb \<or> current_price < orl orb"
    and "confirmation_count (entry_confirmations (enhanced_volume_analysis data) bias (fst mc_rr)) < 3"
  shows "enhanced_entry_conditions self symb current_price current_vol fetched mc_rr bias =
           Rejected (''Entry conditions not met (''
             @ str_nat (confirmation_count
                  (entry_confirmations (enhanced_volume_analysis data) bias (fst mc_rr)))
             @ ''/4 confirmations)'')"
  using assms by (auto simp add: enhanced_entry_conditions_def Let_def)

theorem quorum_rejects_with_count_witness:
  "example_bars \<noteq> []
   \<and> map_of (opening_ranges example_bot) ''AAPL'' \<noteq> None
   \<and> (9.97::real) > 9.95
   \<and> confirmation_count (entry_confirmations (enhanced_volume_analysis example_bars)
         (example_bias False) NORMAL) < 3
   \<and> enhanced_entry_conditions example_bot ''AAPL'' 9.97 5000 (Some example_bars) (NORMAL, 2.5)
         (example_bias False) = Rejected ''Entry conditions not met (2/4 confirmations)''"
proof -
  have c: "confirmation_count (entry_confirmations (enhanced_volume_analysis example_bars)
         (example_bias False) NORMAL) = 2"
    by (simp add: example_volume_analysis entry_confirmations_def confirmation_count_def
        example_bias_def)
  have r: "map_of (opening_ranges example_bot) ''AAPL'' =
      Some \<lparr>or_symbol = ''AAPL'', orh = 9.95, orl = 9.10, range_size = 0.85, volume_avg = 2000\<rparr>"
    by (simp add: example_bot_eq)
  have n: "example_bars \<noteq> []" by (simp add: example_bars_def)
  show ?thesis
    using quorum_rejects_with_count [OF refl n r, where current_price = "9.97"
        and mc_rr = "(NORMAL, 2.5)" and bias = "example_bias False" and current_vol = 5000]
    by (simp add: c r n str_nat.simps digit_char_def)
qed

section \<open>Daily risk governor\<close>

text \<open>
  C5. On either engine, when \<open>trades_today\<close> has reached \<open>max_trades_per_day\<close>,
  or the absolute daily profit or loss has reached the account size times
  \<open>max_daily_loss\<close>, \<open>execute_trade\<close> returns failure with the reason of the
  limit and leaves the bot, and so the active trades, as it was, whatever the proposal is.
\<close>

theorem execute_trade_daily_limits:
  "(trades_today (daily_stats self) \<ge> max_trades_per_day self
      \<or> \<bar>daily_pnl (daily_stats self)\<bar> \<ge> account_size self * max_daily_loss self \<longrightarrow>
    execute_trade self symb trade_data now =
      (self, False,
       if trades_today (daily_stats self) \<ge> max_trades_per_day self
       then ''Daily trade limit reached'' else ''Daily loss limit reached''))
   \<and> (orb_trades_today (orb_daily_stats b) \<ge> orb_max_trades_per_day b
      \<or> \<bar>orb_daily_pnl (orb_daily_stats b)\<bar> \<ge> orb_account_size b * orb_max_daily_loss b \<longrightarrow>
    orb_execute_trade b symb' trade_data' now' =
      (b, False,
       if orb_trades_today (orb_daily_stats b) \<ge> orb_max_trades_per_day b
       then ''Daily trade limit reached'' else ''Daily loss limit reached''))"
  by (auto simp add: execute_trade_def orb_execute_trade_def)

theorem execute_trade_daily_limits_witness:
  "trades_today (daily_stats example_bot_at_limit) = max_trades_per_day example_bot_at_limit
   \<and> execute_trade example_bot_at_limit ''AAPL'' example_proposal 1700000000
       = (example_bot_at_limit, False, ''Daily trade limit reached'')
   \<and> orb_trades_today (orb_daily_stats orb_example_bot_at_limit)
       = orb_max_trades_per_day orb_example_bot_at_limit
   \<and> orb_execute_trade orb_example_bot_at_limit ''AAPL'' orb_example_proposal 1700000000
       = (orb_example_bot_at_limit, False, ''Daily trade limit reached'')"
proof -
  have e: "trades_today (daily_stats example_bot_at_limit) = max_trades_per_day example_bot_at_limit"
    by (simp add: example_bot_at_limit_def example_bot_eq init_bot_def)
  have e': "orb_trades_today (orb_daily_stats orb_example_bot_at_limit)
       = orb_max_trades_per_day orb_example_bot_at_limit"
    by (simp add: orb_example_bot_at_limit_def orb_example_bot_eq orb_init_bot_def)
  from execute_trade_daily_limits [of example_bot_at_limit "''AAPL''" example_proposal 1700000000
      orb_example_bot_at_limit "''AAPL''" orb_example_proposal 1700000000] e e'
  show ?thesis
    by simp
qed

section \<open>Statistics on close\<close>

text \<open>
  C6. Closing an active trade appends the closed trade to the history with its realized
  profit or loss; \<open>consecutive_losses\<close> is one more than before when that is negative
  and 0 otherwise, on either engine. On the enhanced engine, the one that keeps a win rate,
  with a history whose entries all carry their \<open>pnl\<close>, \<open>win_rate\<close> is then the
  number of history entries with a positive \<open>pnl\<close> over the length of the history,
  times 100.
\<close>

theorem close_trade_updates_stats:
  "(map_of (active_trades self) tid = Some trade \<longrightarrow>
    list_all (\<lambda>t. pnl t \<noteq> None) (trades_history self) \<longrightarrow>
    (\<exists>closed p.
           trades_history (close_trade self tid exit_p reason) = trades_history self @ [closed]
         \<and> pnl closed = Some p
         \<and> p = (if direction trade = LONG
                then (exit_p - entry_price trade) * real_of_int (position_size trade)
                else (entry_price trade - exit_p) * real_of_int (position_size trade))
         \<and> consecutive_losses (daily_stats (close_trade self tid exit_p reason)) =
             (if p < 0 then consecutive_losses (daily_stats self) + 1 else 0)
         \<and> win_rate (daily_stats (close_trade self tid exit_p reason)) =
             real (length (filter (\<lambda>t. \<exists>x. pnl t = Some x \<and> 0 < x)
                     (trades_history (close_trade self tid exit_p reason))))
             / real (length (trades_history (close_trade self tid exit_p reason))) * 100))
   \<and> (map_of (orb_active_trades b) k = Some u \<longrightarrow>
      (\<exists>closed p.
           orb_trades_history (orb_close_trade b k exit_p' reason') = orb_trades_history b @ [closed]
         \<and> orb_pnl closed = Some p
         \<and> p = (if orb_direction u = LONG
                then (exit_p' - orb_entry_price u) * real_of_int (orb_position_size u)
                else (orb_entry_price u - exit_p') * real_of_int (orb_position_size u))
         \<and> orb_consecutive_losses (orb_daily_stats (orb_close_trade b k exit_p' reason')) =
             (if p < 0 then orb_consecutive_losses (orb_daily_stats b) + 1 else 0)))"
  using close_trade_stats [of self tid trade exit_p reason]
    orb_close_trade_stats [of b k u exit_p' reason'] by blast

theorem close_trade_updates_stats_witness:
  "map_of (active_trades example_after_tp1) example_tid \<noteq> None
   \<and> list_all (\<lambda>t. pnl t \<noteq> None) (trades_history example_after_tp1)
   \<and> consecutive_losses (daily_stats
         (close_trade example_after_tp1 example_tid 9.5 ''End of Day Close'')) = 1
   \<and> win_rate (daily_stats
         (close_trade example_after_tp1 example_tid 9.5 ''End of Day Close'')) = 0
   \<and> map_of (orb_active_trades orb_example_after_tp1) example_tid \<noteq> None
   \<and> orb_consecutive_losses (orb_daily_stats
         (orb_close_trade orb_example_after_tp1 example_tid 9.5 ''End of Day Close'')) = 1"
proof -
  have a: "map_of (active_trades example_after_tp1) example_tid =
      Some (example_trade\<lparr>tp1_hit := True, position_size := 50, current_stop := 10\<rparr>)"
    by (simp add: example_after_tp1_eq)
  have h: "trades_history example_after_tp1 = []"
    by (simp add: example_after_tp1_eq example_open_eq example_bot_eq init_bot_def)
  have l: "list_all (\<lambda>t. pnl t \<noteq> None) (trades_history example_after_tp1)"
    by (simp add: h)
  have c: "consecutive_losses (daily_stats example_after_tp1) = 0"
    by (simp add: example_after_tp1_eq example_open_eq example_bot_eq init_bot_def)
  have a': "map_of (orb_active_trades orb_example_after_tp1) example_tid =
      Some (orb_example_trade\<lparr>orb_tp1_hit := True, orb_position_size := 50,
              orb_current_stop := 10\<rparr>)"
    by (simp add: orb_example_after_tp1_eq)
  have c': "orb_consecutive_losses (orb_daily_stats orb_example_after_tp1) = 0"
    by (simp add: orb_example_after_tp1_eq orb_example_open_eq orb_example_bot_eq orb_init_bot_def)
  from close_trade_updates_stats [of example_after_tp1 example_tid
      "example_trade\<lparr>tp1_hit := True, position_size := 50, current_stop := 10\<rparr>"
      "9.5" "''End of Day Close''" orb_example_after_tp1 example_tid
      "orb_example_trade\<lparr>orb_tp1_hit := True, orb_position_size := 50, orb_current_stop := 10\<rparr>"
      "9.5" "''End of Day Close''"] a l a'
  show ?thesis
    by (auto simp add: h c c' example_trade_def orb_example_trade_def)
qed

section \<open>Entry levels\<close>

text \<open>
  C7, as stated, fails in the arithmetic of the code. For the opening range with high 105
  and low 100 and a target risk:reward of 2.5, the doubles that the LONG branch computes
  are the doubles 105.05 and 99.9 for the entry and the stop, but the risk is
  5.1499999999999915, not the double 5.15, and the first target is 117.92499999999998, not
  the double 117.925.
\<close>

theorem long_entry_levels_double_counterexample:
  "lv_entry (long_levels_double 105 100 2.5) = fl 105.05
   \<and> lv_stop (long_levels_double 105 100 2.5) = fl 99.90
   \<and> lv_risk (long_levels_double 105 100 2.5) \<noteq> fl 5.15
   \<and> lv_target1 (long_levels_double 105 100 2.5) \<noteq> fl 117.925"
  unfolding long_levels_double_105_100 fl_10505 fl_9990 fl_515 fl_117925 by simp

text \<open>
  C7, amended. A confirmed LONG entry follows the rules of the claim for every opening
  range and every target risk:reward: the entry is 0.05 above the range high, the stop is
  0.10 below the range low, the risk is entry minus stop and the first target is entry plus
  risk:reward times risk. For the range with high 105 and low 100 and risk:reward 2.5 these
  are 105.05, 99.90, 5.15 and 117.925 in exact arithmetic, where the proposal is
  \<open>long_levels\<close> without rounding; the doubles of the code, \<open>long_levels\<close> with every
  step rounded, are the doubles 105.05 and 99.9 for entry and stop, and are within
  \<open>10^-13\<close> of 5.15 and 117.925 for risk and first target.
\<close>

theorem long_entry_levels:
  assumes "fetched = Some data" and "data \<noteq> []"
    and "map_of (opening_ranges self) symb = Some orb"
    and "current_price > orh orb"
    and "confirmation_count (entry_confirmations (enhanced_volume_analysis data) bias mc) \<ge> 3"
  shows "(\<exists>p. enhanced_entry_conditions self symb current_price current_vol fetched (mc, rr) bias
               = Proposal p
           \<and> direction p = LONG
           \<and> entry_price p = orh orb + 0.05
           \<and> stop_loss p = orl orb - 0.10
           \<and> target1 p = entry_price p + rr * (entry_price p - stop_loss p)
           \<and> target_rr p = rr
           \<and> long_levels (\<lambda>x. x) (orh orb) (orl orb) rr =
               \<lparr>lv_entry = entry_price p, lv_stop = stop_loss p,
                lv_risk = entry_price p - stop_loss p, lv_target1 = target1 p\<rparr>
           \<and> (orh orb = 105 \<and> orl orb = 100 \<and> rr = 2.5 \<longrightarrow>
                entry_price p = 105.05
                \<and> stop_loss p = 99.90
                \<and> entry_price p - stop_loss p = 5.15
                \<and> target1 p = 105.05 + 2.5 * 5.15
                \<and> target1 p = 117.925))
         \<and> lv_entry (long_levels_double 105 100 2.5) = fl 105.05
         \<and> lv_stop (long_levels_double 105 100 2.5) = fl 99.90
         \<and> \<bar>lv_risk (long_levels_double 105 100 2.5) - 5.15\<bar> < 1 / 10 ^ 13
         \<and> \<bar>lv_target1 (long_levels_double 105 100 2.5) - 117.925\<bar> < 1 / 10 ^ 13"
proof -
  have d: "lv_entry (long_levels_double 105 100 2.5) = fl 105.05
         \<and> lv_stop (long_levels_double 105 100 2.5) = fl 99.90
         \<and> \<bar>lv_risk (long_levels_double 105 100 2.5) - 5.15\<bar> < 1 / 10 ^ 13
         \<and> \<bar>lv_target1 (long_levels_double 105 100 2.5) - 117.925\<bar> < 1 / 10 ^ 13"
    unfolding long_levels_double_105_100 fl_10505 fl_9990 by simp
  have r: "\<exists>p. enhanced_entry_conditions self symb current_price current_vol fetched (mc, rr) bias
               = Proposal p
           \<and> direction p = LONG
           \<and> entry_price p = orh orb + 0.05
           \<and> stop_loss p = orl orb - 0.10
           \<and> target1 p = entry_price p + rr * (entry_price p - stop_loss p)
           \<and> target_rr p = rr
           \<and> long_levels (\<lambda>x. x) (orh orb) (orl orb) rr =
               \<lparr>lv_entry = entry_price p, lv_stop = stop_loss p,
                lv_risk = entry_price p - stop_loss p, lv_target1 = target1 p\<rparr>
           \<and> (orh orb = 105 \<and> orl orb = 100 \<and> rr = 2.5 \<longrightarrow>
                entry_price p = 105.05
                \<and> stop_loss p = 99.90
                \<and> entry_price p - stop_loss p = 5.15
                \<and> target1 p = 105.05 + 2.5 * 5.15
                \<and> target1 p = 117.925)"
    using assms by (simp add: enhanced_entry_conditions_def long_levels_def Let_def)
  from r d show ?thesis by (rule conjI)
qed

theorem long_entry_levels_witness:
  "example_bars \<noteq> []
   \<and> map_of (opening_ranges ((init_bot 50000 0.01)\<lparr>opening_ranges := [(''AAPL'', range_105_100)]\<rparr>))
        ''AAPL'' = Some range_105_100
   \<and> orh range_105_100 = 105 \<and> orl range_105_100 = 100 \<and> (106::real) > orh range_105_100
   \<and> confirmation_count (entry_confirmations (enhanced_volume_analysis example_bars)
         (example_bias True) NORMAL) \<ge> 3
   \<and> (\<exists>p. enhanced_entry_conditions
              ((init_bot 50000 0.01)\<lparr>opening_ranges := [(''AAPL'', range_105_100)]\<rparr>)
              ''AAPL'' 106 5000 (Some example_bars) (NORMAL, 2.5) (example_bias True) = Proposal p
          \<and> entry_price p = 105.05 \<and> stop_loss p = 99.90 \<and> target1 p = 117.925)"
proof -
  have c: "confirmation_count (entry_confirmations (enhanced_volume_analysis example_bars)
         (example_bias True) NORMAL) = 3"
    by (simp add: example_volume_analysis entry_confirmations_def confirmation_count_def
        example_bias_def)
  have r: "map_of (opening_ranges ((init_bot 50000 0.01)\<lparr>opening_ranges := [(''AAPL'', range_105_100)]\<rparr>))
        ''AAPL'' = Some range_105_100"
    by simp
  have h: "orh range_105_100 = 105" and l: "orl range_105_100 = 100"
    and g: "(106::real) > orh range_105_100"
    by (simp_all add: range_105_100_def)
  have q: "confirmation_count (entry_confirmations (enhanced_volume_analysis example_bars)
         (example_bias True) NORMAL) \<ge> 3"
    by (simp add: c)
  from long_entry_levels [OF refl example_bars_nonempty r g q, of 5000 "2.5"]
  have "\<exists>p. enhanced_entry_conditions
              ((init_bot 50000 0.01)\<lparr>opening_ranges := [(''AAPL'', range_105_100)]\<rparr>)
              ''AAPL'' 106 5000 (Some example_bars) (NORMAL, 2.5) (example_bias True) = Proposal p
          \<and> entry_price p = 105.05 \<and> stop_loss p = 99.90 \<and> target1 p = 117.925"
    using h l by auto
  then show ?thesis
    using example_bars_nonempty r h l g q by blast
qed

section \<open>Session resolver: the overnight session\<close>

text \<open>
  C8. The US session, 18:30 to 01:00 of the next day in Dubai time, is reported open at
  23:59 and at 00:30 and closed at 10:00, whatever the seconds and microseconds are.
\<close>

theorem overnight_session_open_closed:
  "us_session (get_optimal_trading_sessions \<lparr>hour = 23, minute = 59, second = s, microsecond = u\<rparr>)
   \<and> us_session (get_optimal_trading_sessions \<lparr>hour = 0, minute = 30, second = s, microsecond = u\<rparr>)
   \<and> \<not> us_session (get_optimal_trading_sessions \<lparr>hour = 10, minute = 0, second = s, microsecond = u\<rparr>)"
  by (simp add: get_optimal_trading_sessions_def)

section \<open>Opening range\<close>

text \<open>
  C9, as stated, fails: neither engine checks the bars it receives, so a single row whose
  high is 1 and whose low is 2 gives an opening range with high 1, low 2 and
  \<open>range_size = -1\<close>.
\<close>

theorem opening_range_inverted_bar_counterexample:
  "[flat_bar 1 2 10] \<noteq> []
   \<and> snd (calculate_opening_range (init_bot 50000 0.01) ''AAPL'' (Some [flat_bar 1 2 10]))
       = Some \<lparr>or_symbol = ''AAPL'', orh = 1, orl = 2, range_size = - 1, volume_avg = 10\<rparr>
   \<and> snd (orb_calculate_opening_range (orb_init_bot 50000 0.01) ''AAPL'' (Some [flat_bar 1 2 10]))
       = Some \<lparr>or_symbol = ''AAPL'', orh = 1, orl = 2, range_size = - 1, volume_avg = 10\<rparr>
   \<and> orh (the (snd (calculate_opening_range (init_bot 50000 0.01) ''AAPL''
                     (Some [flat_bar 1 2 10]))))
       < orl (the (snd (calculate_opening_range (init_bot 50000 0.01) ''AAPL''
                     (Some [flat_bar 1 2 10]))))
   \<and> range_size (the (snd (calculate_opening_range (init_bot 50000 0.01) ''AAPL''
                     (Some [flat_bar 1 2 10])))) < 0"
  by (simp add: calculate_opening_range_def orb_calculate_opening_range_def
      orb_calculate_volume_average_def flat_bar_def series_max_def series_min_def mean_def
      Let_def)

text \<open>
  C9, amended. On either engine, for a fetch with at least one bar, the opening range is
  stored and returned with the high the maximum of the bar highs and the low the minimum
  of the bar lows over the leading window of six bars, and \<open>range_size = high - low\<close>.
  When some bar of that window has its low at or below its high, as every bar of a
  well-formed series has, then \<open>low \<le> high\<close> and \<open>range_size \<ge> 0\<close>.
\<close>

theorem opening_range_high_ge_low:
  assumes "data \<noteq> []"
  shows "(\<exists>r. snd (calculate_opening_range self symb (Some data)) = Some r
           \<and> map_of (opening_ranges (fst (calculate_opening_range self symb (Some data)))) symb = Some r
           \<and> orh r = Max (high ` set (take 6 data))
           \<and> orl r = Min (low ` set (take 6 data))
           \<and> range_size r = orh r - orl r
           \<and> ((\<exists>b \<in> set (take 6 data). low b \<le> high b) \<longrightarrow>
                orl r \<le> orh r \<and> 0 \<le> range_size r))
       \<and> (\<exists>r. snd (orb_calculate_opening_range b symb (Some data)) = Some r
           \<and> map_of (orb_opening_ranges (fst (orb_calculate_opening_range b symb (Some data)))) symb
               = Some r
           \<and> orh r = Max (high ` set (take 6 data))
           \<and> orl r = Min (low ` set (take 6 data))
           \<and> range_size r = orh r - orl r
           \<and> ((\<exists>b \<in> set (take 6 data). low b \<le> high b) \<longrightarrow>
                orl r \<le> orh r \<and> 0 \<le> range_size r))"
proof -
  from assms have ne: "take 6 data \<noteq> []" by (cases data) simp_all
  show ?thesis
    using assms ne opening_range_levels [OF assms]
    by (simp add: calculate_opening_range_def orb_calculate_opening_range_def Let_def update_conv')
qed

theorem opening_range_high_ge_low_witness:
  "[flat_bar 3 1 10, flat_bar 5 2 10] \<noteq> []
   \<and> low (flat_bar 3 1 10) \<le> high (flat_bar 3 1 10)
   \<and> (\<exists>r. snd (calculate_opening_range (init_bot 50000 0.01) ''AAPL''
                  (Some [flat_bar 3 1 10, flat_bar 5 2 10])) = Some r
          \<and> orh r = 5 \<and> orl r = 1 \<and> range_size r = 4 \<and> orl r \<le> orh r \<and> 0 \<le> range_size r)
   \<and> (\<exists>r. snd (orb_calculate_opening_range (orb_init_bot 50000 0.01) ''AAPL''
                  (Some [flat_bar 3 1 10, flat_bar 5 2 10])) = Some r
          \<and> orh r = 5 \<and> orl r = 1 \<and> range_size r = 4 \<and> orl r \<le> orh r \<and> 0 \<le> range_size r)"
  using opening_range_high_ge_low [of "[flat_bar 3 1 10, flat_bar 5 2 10]"
      "init_bot 50000 0.01" "''AAPL''" "orb_init_bot 50000 0.01"]
  by (auto simp add: flat_bar_def)

section \<open>Volume analysis with a zero mean\<close>

text \<open>
  C10. On every frame with at least one bar the \<open>try\<close> block of the volume
  analysis returns, so the \<open>except\<close> branch is not taken; when the trailing 20-bar
  mean volume is 0, surge and trend are both 1 and the strong-volume flag is false.
\<close>

theorem volume_analysis_zero_mean:
  assumes "data \<noteq> []"
  shows "(\<exists>r. volume_analysis_body data = Inr r \<and> enhanced_volume_analysis data = r)
         \<and> (mean (tail 20 (map volume data)) = 0 \<longrightarrow>
              enhanced_volume_analysis data =
                \<lparr>volume_surge = 1, volume_trend = 1, is_strong_volume = False,
                 avg_volume_20 = 0, current_volume = volume (last data)\<rparr>)"
  using assms by (simp add: volume_analysis_body_def enhanced_volume_analysis_def Let_def last_map)

theorem volume_analysis_zero_mean_witness:
  "[flat_bar 2 1 0, flat_bar 2 1 0] \<noteq> []
   \<and> mean (tail 20 (map volume [flat_bar 2 1 0, flat_bar 2 1 0])) = 0
   \<and> volume_analysis_body [flat_bar 2 1 0, flat_bar 2 1 0] =
           Inr \<lparr>volume_surge = 1, volume_trend = 1, is_strong_volume = False,
                avg_volume_20 = 0, current_volume = 0\<rparr>"
proof -
  have n: "[flat_bar 2 1 0, flat_bar 2 1 0] \<noteq> []" by simp
  have m: "mean (tail 20 (map volume [flat_bar 2 1 0, flat_bar 2 1 0])) = 0"
    by (simp add: mean_def tail_def flat_bar_def)
  from volume_analysis_zero_mean [OF n] m
  show ?thesis
    by (auto simp add: flat_bar_def)
qed

end
